theory Spec2Isabelle
  imports Main "HOL-Library.Sublist" "HOL-Library.Product_Lexorder" "HOL-Library.Multiset"
begin

section \<open>Strings, paths and identifiers\<close>

text \<open>
  Python strings are modelled as HOL strings. On ASCII text \<^verbatim>\<open>str.upper()\<close> changes
  exactly the letters a..z and keeps every other character, and that is what \<open>upper\<close>
  does; for text with non-ASCII letters Python's result differs, so statements about the
  upper-case form itself are made for ASCII text.
\<close>

definition ascii :: "string \<Rightarrow> bool" where
  "ascii s = list_all (\<lambda>c. (of_char c :: nat) < 128) s"

definition lower_case :: "char \<Rightarrow> bool" where
  "lower_case c \<longleftrightarrow> 97 \<le> (of_char c :: nat) \<and> (of_char c :: nat) \<le> 122"

definition upper_char :: "char \<Rightarrow> char" where
  "upper_char c =
     (let n = (of_char c :: nat) in if 97 \<le> n \<and> n \<le> 122 then char_of (n - 32) else c)"

definition upper :: "string \<Rightarrow> string" where
  "upper s = map upper_char s"

text \<open>\<^verbatim>\<open>str.endswith\<close>.\<close>

definition endswith :: "string \<Rightarrow> string \<Rightarrow> bool" where
  "endswith s suf = (length suf \<le> length s \<and> drop (length s - length suf) s = suf)"

text \<open>
  \<^verbatim>\<open>os.path.join\<close> with two arguments, POSIX flavour: an absolute second component
  discards the first one, otherwise the components are glued with one separator.
\<close>

definition path_join :: "string \<Rightarrow> string \<Rightarrow> string" where
  "path_join a b =
     (if b \<noteq> [] \<and> hd b = CHR ''/'' then b
      else if a = [] \<or> last a = CHR ''/'' then a @ b
      else a @ ''/'' @ b)"

definition BASE_DB_PATH :: string where
  "BASE_DB_PATH = path_join (path_join ''bible_databases'' ''formats'') ''sqlite''"

definition GLOBAL_DB_FILE :: string where
  "GLOBAL_DB_FILE = path_join BASE_DB_PATH ''translations.db''"

text \<open>\<^verbatim>\<open>str(n)\<close> for a Python int: decimal digits, a minus sign for negative numbers.\<close>

fun str_nat :: "nat \<Rightarrow> string" where
  "str_nat n =
     (if n < 10 then [char_of (48 + n)]
      else str_nat (n div 10) @ [char_of (48 + n mod 10)])"

declare str_nat.simps [simp del]

definition str_int :: "int \<Rightarrow> string" where
  "str_int i = (if i < 0 then CHR ''-'' # str_nat (nat (- i)) else str_nat (nat i))"

text \<open>
  Request parameters are Python ints without bound. The engine stores integers in 64
  bits, two's complement; binding an int outside that range raises \<^verbatim>\<open>OverflowError\<close>.
\<close>

definition int64 :: "int \<Rightarrow> bool" where
  "int64 i \<longleftrightarrow> - (2 ^ 63) \<le> i \<and> i < 2 ^ 63"

section \<open>Datasets and the storage engine\<close>

text \<open>
  Rows of the relations the endpoints read. The verse, book and cross-reference columns
  carry the types the response models demand; a catalog column is text or NULL
  (\<open>None\<close>).
\<close>

record verse_row =
  row_book_id :: int
  row_chapter :: int
  row_verse :: int
  row_text :: string

record book_row =
  row_id :: int
  row_name :: string

record catalog_row =
  row_translation :: "string option"
  row_title :: "string option"
  row_license :: "string option"

record xref_row =
  from_book :: string
  from_chapter :: int
  from_verse :: int
  to_book :: string
  to_chapter :: int
  to_verse_start :: int
  to_verse_end :: int
  votes :: int

text \<open>
  The statements handed to \<^verbatim>\<open>cursor.execute\<close>: the shape of the query, the table name
  interpolated into its text (first argument where there is one) and the bound
  parameters.
\<close>

datatype stmt =
  SelectCatalog
| SelectBooks string
| SelectChapterCounts string int
| SelectChapterVerses string int int
| SelectChapterRows string int int
| SelectSingleVerse string int int int
| SelectSearch string string "int option"
| SelectPassageChapter string int int int int
| SelectPassageSpan string int int int int int
| SelectCrossReferences string int int

text \<open>
  A dataset holds its relations as rows in storage (insertion) order. Preparing a
  statement on a relation either succeeds or raises an \<^verbatim>\<open>sqlite3.Error\<close> with a message
  (no such table, malformed file, text that is not a table name); the books and verses
  relations are addressed by the name the endpoint interpolates after \<^verbatim>\<open>FROM\<close>.

  SQL leaves open in which order rows come back where the statement does not fix it: rows
  with equal \<^verbatim>\<open>ORDER BY\<close> keys, and all rows of a statement without \<^verbatim>\<open>ORDER BY\<close>.
  The order depends on the access path the engine picks for the statement (a scan of the
  table, or of some index). \<open>access_path\<close> is that choice: for a statement and the
  number of rows it selects, the positions of those rows in the order the engine visits
  them.
\<close>

record database =
  translations_tbl :: "string + catalog_row list"
  books_tbl :: "string \<Rightarrow> string + book_row list"
  verses_tbl :: "string \<Rightarrow> string + verse_row list"
  cross_references_tbl :: "string + xref_row list"
  access_path :: "stmt \<Rightarrow> nat \<Rightarrow> nat list"

definition deliver :: "database \<Rightarrow> stmt \<Rightarrow> 'r list \<Rightarrow> 'r list" where
  "deliver db q rows =
     map (\<lambda>i. rows ! i) (filter (\<lambda>i. i < length rows) (access_path db q (length rows)))"

text \<open>An access path visits every selected row once.\<close>

definition plan_ok :: "database \<Rightarrow> bool" where
  "plan_ok db \<longleftrightarrow> (\<forall>q n. mset (access_path db q n) = mset [0..<n])"

text \<open>The plain scan of the table, in storage order, and the scan that runs backwards.\<close>

definition table_scan :: "stmt \<Rightarrow> nat \<Rightarrow> nat list" where
  "table_scan q n = [0..<n]"

definition backward_scan :: "stmt \<Rightarrow> nat \<Rightarrow> nat list" where
  "backward_scan q n = rev [0..<n]"

text \<open>
  The process environment: \<^verbatim>\<open>os.path.exists\<close>, \<^verbatim>\<open>os.listdir(BASE_DB_PATH)\<close>, which
  raises an \<^verbatim>\<open>OSError\<close> when the directory is missing or cannot be read (\<open>None\<close>),
  and \<^verbatim>\<open>sqlite3.connect\<close>, which yields the dataset stored at a path or raises.
\<close>

record env =
  path_exists :: "string \<Rightarrow> bool"
  listdir :: "string list option"
  connect :: "string \<Rightarrow> string + database"

text \<open>Python exceptions that the endpoints raise or let escape.\<close>

datatype exn =
  HTTPException nat string
| Sqlite3Error string
| OverflowError
| OSError
| ValidationError

text \<open>What an endpoint does to the outside world, in order.\<close>

datatype event =
  Connect string
| Execute stmt
| Close string
| Print string exn

type_synonym 'a outcome = "event list \<times> (exn + 'a)"

section \<open>Utility database functions\<close>

definition get_db_connection :: "env \<Rightarrow> string \<Rightarrow> exn + database" where
  "get_db_connection e db_path =
     (if \<not> path_exists e db_path
      then Inl (HTTPException 404 (''Database file '' @ db_path @ '' not found''))
      else case connect e db_path of
             Inl msg \<Rightarrow> Inl (Sqlite3Error msg)
           | Inr db \<Rightarrow> Inr db)"

definition db_file :: "string \<Rightarrow> string" where
  "db_file translation_id = path_join BASE_DB_PATH (upper translation_id @ ''.db'')"

definition get_translation_db :: "env \<Rightarrow> string \<Rightarrow> exn + database" where
  "get_translation_db e translation_id = get_db_connection e (db_file translation_id)"

section \<open>Response models\<close>

datatype Translation = Translation string string "string option"

datatype Book = Book int string

datatype Verse = Verse int string

text \<open>
  \<^verbatim>\<open>Translation(**dict(row))\<close>: the model demands text for \<^verbatim>\<open>translation\<close> and
  \<^verbatim>\<open>title\<close>; \<^verbatim>\<open>license\<close> may be NULL. A row that fails validation raises.
\<close>

definition make_Translation :: "catalog_row \<Rightarrow> Translation option" where
  "make_Translation row =
     (case (row_translation row, row_title row) of
        (Some tr, Some ti) \<Rightarrow> Some (Translation tr ti (row_license row))
      | _ \<Rightarrow> None)"

definition make_Verse :: "verse_row \<Rightarrow> Verse" where
  "make_Verse row = Verse (row_verse row) (row_text row)"

section \<open>Queries\<close>

text \<open>
  \<^verbatim>\<open>cursor.execute\<close> first prepares the statement, which raises the relation's
  \<^verbatim>\<open>sqlite3.Error\<close> if it has one; then it binds the parameters, which raises
  \<^verbatim>\<open>OverflowError\<close> for an int outside 64 bits; then it runs the query.

  Each query is the list function its SQL text denotes: \<^verbatim>\<open>WHERE\<close> filters the rows of
  the relation, the engine visits the selected rows along its access path,
  \<^verbatim>\<open>ORDER BY\<close> sorts them by the key and keeps rows of equal key in the order visited,
  \<^verbatim>\<open>LIMIT n\<close> keeps the first \<open>n\<close> rows, and \<^verbatim>\<open>fetchone\<close> reads the first row if
  there is one.
\<close>

definition execute :: "string + 'r list \<Rightarrow> int list \<Rightarrow> ('r list \<Rightarrow> 'a) \<Rightarrow> exn + 'a" where
  "execute relation params query =
     (case relation of
        Inl msg \<Rightarrow> Inl (Sqlite3Error msg)
      | Inr rows \<Rightarrow> if list_all int64 params then Inr (query rows) else Inl OverflowError)"

text \<open>
  \<^verbatim>\<open>except sqlite3.Error as e: raise HTTPException(status_code=500, detail=f"...: {e}")\<close>;
  any other exception passes through.
\<close>

definition reraise :: "string \<Rightarrow> exn \<Rightarrow> exn" where
  "reraise detail ex =
     (case ex of Sqlite3Error msg \<Rightarrow> HTTPException 500 (detail @ msg) | _ \<Rightarrow> ex)"

definition fetchone :: "'a list \<Rightarrow> 'a option" where
  "fetchone rows = (case rows of [] \<Rightarrow> None | r # _ \<Rightarrow> Some r)"

text \<open>\<^verbatim>\<open>SELECT translation, title, license FROM translations LIMIT 1\<close>\<close>

definition exec_catalog :: "database \<Rightarrow> exn + catalog_row list" where
  "exec_catalog db =
     execute (translations_tbl db) [] (\<lambda>rows. take 1 (deliver db SelectCatalog rows))"

text \<open>\<^verbatim>\<open>SELECT id, name FROM {table_name} ORDER BY id\<close>\<close>

definition exec_books :: "database \<Rightarrow> string \<Rightarrow> exn + book_row list" where
  "exec_books db table_name =
     execute (books_tbl db table_name) []
       (\<lambda>rows. sort_key row_id (deliver db (SelectBooks table_name) rows))"

text \<open>
  \<^verbatim>\<open>SELECT chapter, COUNT(*) as verse_count FROM {table_name} WHERE book_id = ?
  GROUP BY chapter ORDER BY chapter\<close>: one row per chapter of the book, so the result
  does not depend on the order in which the verses are visited.
\<close>

definition chapter_groups :: "verse_row list \<Rightarrow> int \<Rightarrow> (int \<times> int) list" where
  "chapter_groups rows book_id =
     (let selected = filter (\<lambda>r. row_book_id r = book_id) rows
      in map (\<lambda>c. (c, int (length (filter (\<lambda>r. row_chapter r = c) selected))))
           (sort (remdups (map row_chapter selected))))"

definition exec_chapter_counts :: "database \<Rightarrow> string \<Rightarrow> int \<Rightarrow> exn + (int \<times> int) list" where
  "exec_chapter_counts db table_name book_id =
     execute (verses_tbl db table_name) [book_id] (\<lambda>rows. chapter_groups rows book_id)"

text \<open>
  \<^verbatim>\<open>SELECT verse, text FROM {table_name} WHERE book_id = ? AND chapter = ? ORDER BY verse\<close>
  (the compare endpoint selects the chapter column as well; \<open>q\<close> says which of the two
  statements is run).
\<close>

definition chapter_rows :: "database \<Rightarrow> stmt \<Rightarrow> verse_row list \<Rightarrow> int \<Rightarrow> int \<Rightarrow> verse_row list" where
  "chapter_rows db q rows book_id chapter =
     sort_key row_verse
       (deliver db q (filter (\<lambda>r. row_book_id r = book_id \<and> row_chapter r = chapter) rows))"

definition exec_chapter_verses ::
  "database \<Rightarrow> stmt \<Rightarrow> string \<Rightarrow> int \<Rightarrow> int \<Rightarrow> exn + verse_row list" where
  "exec_chapter_verses db q table_name book_id chapter =
     execute (verses_tbl db table_name) [book_id, chapter]
       (\<lambda>rows. chapter_rows db q rows book_id chapter)"

text \<open>
  \<^verbatim>\<open>SELECT verse, text FROM {table_name} WHERE book_id = ? AND chapter = ? AND verse = ?\<close>
\<close>

definition exec_single_verse ::
  "database \<Rightarrow> string \<Rightarrow> int \<Rightarrow> int \<Rightarrow> int \<Rightarrow> exn + verse_row list" where
  "exec_single_verse db table_name book_id chapter verse =
     execute (verses_tbl db table_name) [book_id, chapter, verse]
       (\<lambda>rows. deliver db (SelectSingleVerse table_name book_id chapter verse)
                 (filter (\<lambda>r. row_book_id r = book_id \<and> row_chapter r = chapter \<and>
                               row_verse r = verse) rows))"

text \<open>
  The engine's \<^verbatim>\<open>LIKE\<close>: in the pattern \<^verbatim>\<open>%\<close> stands for any run of characters and
  \<^verbatim>\<open>_\<close> for any one character; every other character matches itself, ASCII letters
  without regard to case. (The engine also stops reading a pattern at a NUL character
  and refuses patterns longer than 50000 bytes; \<open>like_match\<close> is its matching on
  patterns within these limits.)
\<close>

fun like_match :: "string \<Rightarrow> string \<Rightarrow> bool" where
  "like_match [] [] = True"
| "like_match [] (t # ts) = False"
| "like_match (p # ps) [] = (p = CHR ''%'' \<and> like_match ps [])"
| "like_match (p # ps) (t # ts) =
     (if p = CHR ''%'' then like_match ps (t # ts) \<or> like_match (p # ps) ts
      else (p = CHR ''_'' \<or> upper_char p = upper_char t) \<and> like_match ps ts)"

text \<open>
  \<^verbatim>\<open>SELECT verse, text FROM {table_name} WHERE text LIKE ? [AND book_id = ?]
  ORDER BY chapter, verse LIMIT 100\<close> with the pattern \<^verbatim>\<open>f"%{query}%"\<close>.
\<close>

definition search_rows ::
  "database \<Rightarrow> stmt \<Rightarrow> verse_row list \<Rightarrow> string \<Rightarrow> int option \<Rightarrow> verse_row list" where
  "search_rows db q rows query book =
     take 100
       (sort_key (\<lambda>r. (row_chapter r, row_verse r))
          (deliver db q
             (filter (\<lambda>r. like_match (''%'' @ query @ ''%'') (row_text r) \<and>
                           (case book of None \<Rightarrow> True | Some b \<Rightarrow> row_book_id r = b))
                rows)))"

definition exec_search ::
  "database \<Rightarrow> string \<Rightarrow> string \<Rightarrow> int option \<Rightarrow> exn + verse_row list" where
  "exec_search db table_name query book =
     execute (verses_tbl db table_name) (case book of None \<Rightarrow> [] | Some b \<Rightarrow> [b])
       (\<lambda>rows. search_rows db (SelectSearch table_name query book) rows query book)"

text \<open>
  The two passage queries. Within one chapter:
  \<^verbatim>\<open>WHERE book_id = ? AND chapter = ? AND verse BETWEEN ? AND ? ORDER BY verse\<close>;
  across chapters:
  \<^verbatim>\<open>WHERE book_id = ? AND ((chapter = ? AND verse >= ?) OR (chapter > ? AND chapter < ?)
  OR (chapter = ? AND verse <= ?)) ORDER BY chapter, verse\<close>.
\<close>

definition passage_chapter_rows ::
  "database \<Rightarrow> stmt \<Rightarrow> verse_row list \<Rightarrow> int \<Rightarrow> int \<Rightarrow> int \<Rightarrow> int \<Rightarrow> verse_row list" where
  "passage_chapter_rows db q rows book chapter start_verse end_verse =
     sort_key row_verse
       (deliver db q
          (filter (\<lambda>r. row_book_id r = book \<and> row_chapter r = chapter \<and>
                        start_verse \<le> row_verse r \<and> row_verse r \<le> end_verse)
             rows))"

definition passage_span_rows ::
  "database \<Rightarrow> stmt \<Rightarrow> verse_row list \<Rightarrow> int \<Rightarrow> int \<Rightarrow> int \<Rightarrow> int \<Rightarrow> int \<Rightarrow> verse_row list" where
  "passage_span_rows db q rows book start_chapter start_verse end_chapter end_verse =
     sort_key (\<lambda>r. (row_chapter r, row_verse r))
       (deliver db q
          (filter (\<lambda>r. row_book_id r = book \<and>
                        ((row_chapter r = start_chapter \<and> row_verse r \<ge> start_verse) \<or>
                         (row_chapter r > start_chapter \<and> row_chapter r < end_chapter) \<or>
                         (row_chapter r = end_chapter \<and> row_verse r \<le> end_verse)))
             rows))"

text \<open>
  \<^verbatim>\<open>SELECT ... FROM cross_references WHERE from_book = ? AND from_chapter = ? AND
  from_verse = ? ORDER BY votes DESC\<close>
\<close>

definition cross_reference_rows ::
  "database \<Rightarrow> stmt \<Rightarrow> xref_row list \<Rightarrow> string \<Rightarrow> int \<Rightarrow> int \<Rightarrow> xref_row list" where
  "cross_reference_rows db q rows book chapter verse =
     sort_key (\<lambda>r. - votes r)
       (deliver db q
          (filter (\<lambda>r. from_book r = book \<and> from_chapter r = chapter \<and> from_verse r = verse)
             rows))"

section \<open>Endpoints\<close>

text \<open>
  An endpoint opens its connection before the \<^verbatim>\<open>try\<close> block, so a failure of
  \<^verbatim>\<open>get_translation_db\<close> escapes as it is. Inside the block an \<^verbatim>\<open>sqlite3.Error\<close>
  becomes a 500 response and any other exception escapes; the \<^verbatim>\<open>finally\<close> clause closes
  the connection on every path.
\<close>

definition session :: "string \<Rightarrow> stmt \<Rightarrow> event list" where
  "session p q = [Connect p, Execute q, Close p]"

subsection \<open>GET /translations\<close>

text \<open>
  One pass of the loop body of \<^verbatim>\<open>get_all_translations\<close> for a file name that ends in
  \<^verbatim>\<open>.db\<close>. \<open>conn\<close> is the local variable of that name: the path of the connection
  opened last, if any, which is what the \<^verbatim>\<open>finally\<close> clause closes. Every exception
  raised in the pass is caught and printed.
\<close>

definition scan_file ::
  "env \<Rightarrow> string \<Rightarrow> string option \<Rightarrow> Translation option \<times> string option \<times> event list" where
  "scan_file e filename conn =
     (let db_path = path_join BASE_DB_PATH filename in
      case get_db_connection e db_path of
        Inl ex \<Rightarrow>
          (None, conn, Print filename ex # (case conn of None \<Rightarrow> [] | Some p \<Rightarrow> [Close p]))
      | Inr db \<Rightarrow>
          (case exec_catalog db of
             Inl ex \<Rightarrow>
               (None, Some db_path,
                [Connect db_path, Execute SelectCatalog, Print filename ex, Close db_path])
           | Inr rows \<Rightarrow>
               (case fetchone rows of
                  None \<Rightarrow> (None, Some db_path, session db_path SelectCatalog)
                | Some row \<Rightarrow>
                    (case make_Translation row of
                       None \<Rightarrow>
                         (None, Some db_path,
                          [Connect db_path, Execute SelectCatalog,
                           Print filename ValidationError, Close db_path])
                     | Some t \<Rightarrow> (Some t, Some db_path, session db_path SelectCatalog)))))"

fun scan_loop ::
  "env \<Rightarrow> string list \<Rightarrow> Translation list \<Rightarrow> string option \<Rightarrow> event list \<Rightarrow>
   Translation list \<times> event list" where
  "scan_loop e [] translations_list conn tr = (translations_list, tr)"
| "scan_loop e (filename # rest) translations_list conn tr =
     (if endswith filename ''.db'' then
        (case scan_file e filename conn of
           (r, conn', evs) \<Rightarrow>
             scan_loop e rest
               (translations_list @ (case r of None \<Rightarrow> [] | Some t \<Rightarrow> [t])) conn' (tr @ evs))
      else scan_loop e rest translations_list conn tr)"

text \<open>
  \<^verbatim>\<open>os.listdir(BASE_DB_PATH)\<close> is evaluated outside every \<^verbatim>\<open>try\<close>: when it raises,
  the endpoint ends with that exception.
\<close>

definition get_all_translations :: "env \<Rightarrow> Translation list outcome" where
  "get_all_translations e =
     (case listdir e of
        None \<Rightarrow> ([], Inl OSError)
      | Some filenames \<Rightarrow>
          (case scan_loop e filenames [] None [] of
             (translations_list, tr) \<Rightarrow>
               if translations_list = []
               then (tr, Inl (HTTPException 404 ''No translations found''))
               else (tr, Inr translations_list)))"

subsection \<open>Translation-specific endpoints\<close>

definition get_books_for_translation :: "env \<Rightarrow> string \<Rightarrow> Book list outcome" where
  "get_books_for_translation e translation_id =
     (case get_translation_db e translation_id of
        Inl ex \<Rightarrow> ([], Inl ex)
      | Inr db \<Rightarrow>
          (let table_name = upper translation_id @ ''_books'';
               tr = session (db_file translation_id) (SelectBooks table_name)
           in case exec_books db table_name of
                Inl ex \<Rightarrow> (tr, Inl (reraise ''Error fetching books: '' ex))
              | Inr rows \<Rightarrow> (tr, Inr (map (\<lambda>row. Book (row_id row) (row_name row)) rows))))"

definition get_chapter_counts :: "env \<Rightarrow> string \<Rightarrow> int \<Rightarrow> (int \<times> int) list outcome" where
  "get_chapter_counts e translation_id book_id =
     (case get_translation_db e translation_id of
        Inl ex \<Rightarrow> ([], Inl ex)
      | Inr db \<Rightarrow>
          (let table_name = upper translation_id @ ''_verses'';
               tr = session (db_file translation_id) (SelectChapterCounts table_name book_id)
           in case exec_chapter_counts db table_name book_id of
                Inl ex \<Rightarrow> (tr, Inl (reraise ''Error fetching chapters: '' ex))
              | Inr result \<Rightarrow>
                  if result = []
                  then (tr, Inl (HTTPException 404 ''No chapters found for given book''))
                  else (tr, Inr result)))"

definition get_verses_in_chapter :: "env \<Rightarrow> string \<Rightarrow> int \<Rightarrow> int \<Rightarrow> Verse list outcome" where
  "get_verses_in_chapter e translation_id book_id chapter =
     (case get_translation_db e translation_id of
        Inl ex \<Rightarrow> ([], Inl ex)
      | Inr db \<Rightarrow>
          (let table_name = upper translation_id @ ''_verses'';
               q = SelectChapterVerses table_name book_id chapter;
               tr = session (db_file translation_id) q
           in case exec_chapter_verses db q table_name book_id chapter of
                Inl ex \<Rightarrow> (tr, Inl (reraise ''Error fetching verses: '' ex))
              | Inr rows \<Rightarrow>
                  (let verses = map make_Verse rows
                   in if verses = []
                      then (tr, Inl (HTTPException 404 ''No verses found for given chapter''))
                      else (tr, Inr verses))))"

definition get_single_verse :: "env \<Rightarrow> string \<Rightarrow> int \<Rightarrow> int \<Rightarrow> int \<Rightarrow> Verse outcome" where
  "get_single_verse e translation_id book_id chapter verse =
     (case get_translation_db e translation_id of
        Inl ex \<Rightarrow> ([], Inl ex)
      | Inr db \<Rightarrow>
          (let table_name = upper translation_id @ ''_verses'';
               tr = session (db_file translation_id)
                      (SelectSingleVerse table_name book_id chapter verse)
           in case exec_single_verse db table_name book_id chapter verse of
                Inl ex \<Rightarrow> (tr, Inl (reraise ''Error fetching verse: '' ex))
              | Inr rows \<Rightarrow>
                  (case fetchone rows of
                     None \<Rightarrow> (tr, Inl (HTTPException 404 ''Verse not found''))
                   | Some row \<Rightarrow> (tr, Inr (make_Verse row)))))"

subsection \<open>GET /search and GET /passage\<close>

definition search_verses :: "env \<Rightarrow> string \<Rightarrow> string \<Rightarrow> int option \<Rightarrow> Verse list outcome" where
  "search_verses e translation query book =
     (case get_translation_db e translation of
        Inl ex \<Rightarrow> ([], Inl ex)
      | Inr db \<Rightarrow>
          (let table_name = upper translation @ ''_verses'';
               tr = session (db_file translation) (SelectSearch table_name query book)
           in case exec_search db table_name query book of
                Inl ex \<Rightarrow> (tr, Inl (reraise ''Error in search: '' ex))
              | Inr rows \<Rightarrow> (tr, Inr (map make_Verse rows))))"

text \<open>
  The one-chapter statement binds the book, the chapter and the two verse bounds; the
  statement across chapters binds all five numbers.
\<close>

definition get_passage ::
  "env \<Rightarrow> string \<Rightarrow> int \<Rightarrow> int \<Rightarrow> int \<Rightarrow> int \<Rightarrow> int \<Rightarrow> Verse list outcome" where
  "get_passage e translation book start_chapter start_verse end_chapter end_verse =
     (case get_translation_db e translation of
        Inl ex \<Rightarrow> ([], Inl ex)
      | Inr db \<Rightarrow>
          (let table_name = upper translation @ ''_verses'';
               q = (if start_chapter = end_chapter
                    then SelectPassageChapter table_name book start_chapter start_verse end_verse
                    else SelectPassageSpan table_name book start_chapter start_verse
                           end_chapter end_verse);
               tr = session (db_file translation) q
           in case (if start_chapter = end_chapter
                    then execute (verses_tbl db table_name)
                           [book, start_chapter, start_verse, end_verse]
                           (\<lambda>rows. passage_chapter_rows db q rows book start_chapter
                                     start_verse end_verse)
                    else execute (verses_tbl db table_name)
                           [book, start_chapter, start_verse, start_chapter, end_chapter,
                            end_chapter, end_verse]
                           (\<lambda>rows. passage_span_rows db q rows book start_chapter start_verse
                                     end_chapter end_verse)) of
                Inl ex \<Rightarrow> (tr, Inl (reraise ''Error fetching passage: '' ex))
              | Inr rows \<Rightarrow>
                  if rows = []
                  then (tr, Inl (HTTPException 404 ''Passage not found''))
                  else (tr, Inr (map make_Verse rows))))"

subsection \<open>Cross references\<close>

text \<open>
  The endpoint takes the numeric book id and uses its decimal text as the book
  abbreviation; the translation id of the route is not used.
\<close>

definition get_cross_references ::
  "env \<Rightarrow> string \<Rightarrow> int \<Rightarrow> int \<Rightarrow> int \<Rightarrow> xref_row list outcome" where
  "get_cross_references e translation_id book_id chapter verse =
     (let book = str_int book_id in
      case get_db_connection e GLOBAL_DB_FILE of
        Inl ex \<Rightarrow> ([], Inl ex)
      | Inr db \<Rightarrow>
          (let q = SelectCrossReferences book chapter verse;
               tr = session GLOBAL_DB_FILE q
           in case execute (cross_references_tbl db) [chapter, verse]
                     (\<lambda>rows. cross_reference_rows db q rows book chapter verse) of
                Inl ex \<Rightarrow> (tr, Inl (reraise ''Error fetching cross references: '' ex))
              | Inr rows \<Rightarrow>
                  if rows = []
                  then (tr, Inl (HTTPException 404 ''No cross references found''))
                  else (tr, Inr rows)))"

subsection \<open>GET /compare\<close>

text \<open>
  A side of the comparison is a verse as a dict, a list of row dicts, or a string
  (\<^verbatim>\<open>"Verse not found"\<close>, \<^verbatim>\<open>f"Error: {e}"\<close>).
\<close>

datatype compare_value =
  VerseDict int string
| RowDicts "(int \<times> int \<times> string) list"
| Str string

text \<open>
  \<^verbatim>\<open>except sqlite3.Error as e: result[t.upper()] = f"Error: {e}"\<close>; any other exception
  leaves the loop.
\<close>

definition capture :: "exn + compare_value \<Rightarrow> exn + compare_value" where
  "capture r =
     (case r of
        Inl ex \<Rightarrow> (case ex of Sqlite3Error msg \<Rightarrow> Inr (Str (''Error: '' @ msg)) | _ \<Rightarrow> Inl ex)
      | Inr v \<Rightarrow> Inr v)"

text \<open>
  The \<^verbatim>\<open>try\<close> block of the loop body: the statement it executes, and the value it stores
  under \<^verbatim>\<open>t.upper()\<close> or the exception that escapes it. The test \<^verbatim>\<open>if verse:\<close> is
  Python truthiness, false for \<^verbatim>\<open>None\<close> and for \<open>0\<close>.
\<close>

definition compare_side ::
  "database \<Rightarrow> string \<Rightarrow> int \<Rightarrow> int \<Rightarrow> int option \<Rightarrow> stmt \<times> (exn + compare_value)" where
  "compare_side db table_name book chapter verse =
     (if verse \<noteq> None \<and> verse \<noteq> Some 0 then
        (SelectSingleVerse table_name book chapter (the verse),
         capture
           (map_sum (\<lambda>ex. ex)
              (\<lambda>rows. case fetchone rows of
                         None \<Rightarrow> Str ''Verse not found''
                       | Some row \<Rightarrow> VerseDict (row_verse row) (row_text row))
              (exec_single_verse db table_name book chapter (the verse))))
      else
        (SelectChapterRows table_name book chapter,
         capture
           (map_sum (\<lambda>ex. ex)
              (\<lambda>rows. RowDicts (map (\<lambda>r. (row_chapter r, row_verse r, row_text r)) rows))
              (exec_chapter_verses db (SelectChapterRows table_name book chapter)
                 table_name book chapter))))"

fun compare_loop ::
  "env \<Rightarrow> int \<Rightarrow> int \<Rightarrow> int option \<Rightarrow> string list \<Rightarrow> event list \<Rightarrow>
   (string \<rightharpoonup> compare_value) \<Rightarrow> (string \<rightharpoonup> compare_value) outcome" where
  "compare_loop e book chapter verse [] tr result = (tr, Inr result)"
| "compare_loop e book chapter verse (t # ts) tr result =
     (case get_translation_db e t of
        Inl ex \<Rightarrow> (tr, Inl ex)
      | Inr db \<Rightarrow>
          (case compare_side db (upper t @ ''_verses'') book chapter verse of
             (q, Inl ex) \<Rightarrow> (tr @ session (db_file t) q, Inl ex)
           | (q, Inr v) \<Rightarrow>
               compare_loop e book chapter verse ts
                 (tr @ session (db_file t) q) (result(upper t \<mapsto> v))))"

definition compare_translations ::
  "env \<Rightarrow> string \<Rightarrow> string \<Rightarrow> int \<Rightarrow> int \<Rightarrow> int option \<Rightarrow> (string \<rightharpoonup> compare_value) outcome" where
  "compare_translations e translation1 translation2 book chapter verse =
     compare_loop e book chapter verse [translation1, translation2] [] Map.empty"

section \<open>User annotations (in memory)\<close>

record annotation =
  a_id :: int
  a_translation :: string
  a_book :: string
  a_chapter :: int
  a_verse :: int
  a_note :: string

text \<open>The two module globals.\<close>

record store =
  ANNOTATIONS :: "annotation list"
  annotation_id_counter :: int

definition initial_store :: store where
  "initial_store = \<lparr>ANNOTATIONS = [], annotation_id_counter = 1\<rparr>"

text \<open>The body of \<^verbatim>\<open>add_annotation\<close>, run from its first line to its last without a break.\<close>

definition add_annotation ::
  "store \<Rightarrow> string \<Rightarrow> int \<Rightarrow> int \<Rightarrow> int \<Rightarrow> string \<Rightarrow> annotation \<times> store" where
  "add_annotation s translation book chapter verse note =
     (let new_annotation =
            \<lparr>a_id = annotation_id_counter s, a_translation = upper translation,
             a_book = str_int book, a_chapter = chapter, a_verse = verse, a_note = note\<rparr>
      in (new_annotation,
          s\<lparr>ANNOTATIONS := ANNOTATIONS s @ [new_annotation],
            annotation_id_counter := annotation_id_counter s + 1\<rparr>))"

text \<open>
  \<^verbatim>\<open>get_annotations\<close> only reads the list. The test \<^verbatim>\<open>if translation:\<close> skips an empty
  filter string as well as a missing one. Every stored book is the decimal text of an
  int, so \<^verbatim>\<open>int(a["book"]) == book\<close> compares the stored text with the decimal text of
  the filter.
\<close>

definition get_annotations ::
  "store \<Rightarrow> string option \<Rightarrow> int option \<Rightarrow> int option \<Rightarrow> int option \<Rightarrow> annotation list" where
  "get_annotations s translation book chapter verse =
     (let f1 = (case translation of
                  None \<Rightarrow> ANNOTATIONS s
                | Some t \<Rightarrow> if t = [] then ANNOTATIONS s
                            else filter (\<lambda>a. a_translation a = upper t) (ANNOTATIONS s));
          f2 = (case book of None \<Rightarrow> f1 | Some b \<Rightarrow> filter (\<lambda>a. a_book a = str_int b) f1);
          f3 = (case chapter of None \<Rightarrow> f2 | Some c \<Rightarrow> filter (\<lambda>a. a_chapter a = c) f2)
      in case verse of None \<Rightarrow> f3 | Some v \<Rightarrow> filter (\<lambda>a. a_verse a = v) f3)"

subsection \<open>Requests served one at a time\<close>

text \<open>
  The requests that touch the store. \<open>run\<close> is the store after a list of requests has
  been served one after the other from the module's initial values, each handler running
  to its end before the next one starts; \<open>responses\<close> are the annotations the
  \<^verbatim>\<open>POST\<close> requests of such a run return, in order.
\<close>

datatype request =
  AddAnnotation string int int int string
| GetAnnotations "string option" "int option" "int option" "int option"

fun serve :: "store \<Rightarrow> request \<Rightarrow> store" where
  "serve s (AddAnnotation translation book chapter verse note) =
     snd (add_annotation s translation book chapter verse note)"
| "serve s (GetAnnotations translation book chapter verse) = s"

definition run :: "request list \<Rightarrow> store" where
  "run reqs = foldl serve initial_store reqs"

fun responses :: "store \<Rightarrow> request list \<Rightarrow> annotation list" where
  "responses s [] = []"
| "responses s (AddAnnotation translation book chapter verse note # reqs) =
     fst (add_annotation s translation book chapter verse note) #
     responses (snd (add_annotation s translation book chapter verse note)) reqs"
| "responses s (GetAnnotations translation book chapter verse # reqs) = responses s reqs"

subsection \<open>Requests served by concurrent handlers\<close>

text \<open>
  The endpoint is a plain \<^verbatim>\<open>def\<close>, which the framework runs on a pool of threads, and
  the body takes no lock. A handler of \<^verbatim>\<open>add_annotation\<close> can therefore be suspended
  between any two of its steps: building the dict, which reads the counter; appending it;
  loading the counter for \<^verbatim>\<open>annotation_id_counter += 1\<close>; storing the sum.
\<close>

datatype handler =
  Received string int int int string
| Built annotation
| Appended annotation
| Loaded annotation int
| Returned annotation

fun advance :: "store \<Rightarrow> handler \<Rightarrow> store \<times> handler" where
  "advance s (Received translation book chapter verse note) =
     (s, Built \<lparr>a_id = annotation_id_counter s, a_translation = upper translation,
                a_book = str_int book, a_chapter = chapter, a_verse = verse, a_note = note\<rparr>)"
| "advance s (Built a) = (s\<lparr>ANNOTATIONS := ANNOTATIONS s @ [a]\<rparr>, Appended a)"
| "advance s (Appended a) = (s, Loaded a (annotation_id_counter s))"
| "advance s (Loaded a n) = (s\<lparr>annotation_id_counter := n + 1\<rparr>, Returned a)"
| "advance s (Returned a) = (s, Returned a)"

text \<open>
  The process: the store and the handlers in flight. A schedule names, step by step, the
  handler that moves next.
\<close>

fun step :: "store \<times> handler list \<Rightarrow> nat \<Rightarrow> store \<times> handler list" where
  "step (s, hs) i =
     (if i < length hs
      then (case advance s (hs ! i) of (s', h) \<Rightarrow> (s', hs[i := h]))
      else (s, hs))"

definition schedule :: "store \<times> handler list \<Rightarrow> nat list \<Rightarrow> store \<times> handler list" where
  "schedule p moves = foldl step p moves"

section \<open>Invariant of the annotation store\<close>

text \<open>
  The counter is one more than the number of stored annotations, and the stored ids are
  \<open>1, 2, \<dots>\<close> in the order of insertion.
\<close>

definition store_inv :: "store \<Rightarrow> bool" where
  "store_inv s \<longleftrightarrow>
     annotation_id_counter s = 1 + int (length (ANNOTATIONS s)) \<and>
     map a_id (ANNOTATIONS s) = [1..int (length (ANNOTATIONS s))]"

fun is_add :: "request \<Rightarrow> bool" where
  "is_add (AddAnnotation translation book chapter verse note) = True"
| "is_add (GetAnnotations translation book chapter verse) = False"

section \<open>Sample datasets\<close>

text \<open>
  A small deployment used to run the endpoints on concrete inputs: two translations, the
  shared dataset, a file that holds no relation at all, and a file that is not a dataset.
  The engine scans every table in storage order.
\<close>

definition kjv_verses :: "verse_row list" where
  "kjv_verses =
     [\<lparr>row_book_id = 1, row_chapter = 1, row_verse = 30, row_text = ''and it was so''\<rparr>,
      \<lparr>row_book_id = 1, row_chapter = 2, row_verse = 1, row_text = ''Thus the heavens''\<rparr>,
      \<lparr>row_book_id = 1, row_chapter = 1, row_verse = 31, row_text = ''God saw abc''\<rparr>,
      \<lparr>row_book_id = 1, row_chapter = 2, row_verse = 2, row_text = ''And on the seventh day''\<rparr>,
      \<lparr>row_book_id = 1, row_chapter = 3, row_verse = 1, row_text = ''Now the serpent''\<rparr>,
      \<lparr>row_book_id = 2, row_chapter = 1, row_verse = 1, row_text = ''Now these are the names''\<rparr>]"

definition asv_verses :: "verse_row list" where
  "asv_verses =
     [\<lparr>row_book_id = 1, row_chapter = 1, row_verse = 31,
       row_text = ''And God saw everything''\<rparr>]"

definition no_table :: "string \<Rightarrow> string + 'a" where
  "no_table name = Inl (''no such table: '' @ name)"

definition kjv_db :: database where
  "kjv_db =
     \<lparr>translations_tbl =
        Inr [\<lparr>row_translation = Some ''KJV'', row_title = Some ''King James Version'',
              row_license = Some ''Public Domain''\<rparr>],
      books_tbl = (\<lambda>n. if n = ''KJV_books''
                        then Inr [\<lparr>row_id = 2, row_name = ''Exodus''\<rparr>,
                                  \<lparr>row_id = 1, row_name = ''Genesis''\<rparr>]
                        else no_table n),
      verses_tbl = (\<lambda>n. if n = ''KJV_verses'' then Inr kjv_verses else no_table n),
      cross_references_tbl = no_table ''cross_references'',
      access_path = table_scan\<rparr>"

definition asv_db :: database where
  "asv_db =
     \<lparr>translations_tbl =
        Inr [\<lparr>row_translation = Some ''ASV'', row_title = None, row_license = None\<rparr>],
      books_tbl = (\<lambda>n. if n = ''ASV_books'' then Inr [] else no_table n),
      verses_tbl = (\<lambda>n. if n = ''ASV_verses'' then Inr asv_verses else no_table n),
      cross_references_tbl = no_table ''cross_references'',
      access_path = table_scan\<rparr>"

definition shared_xrefs :: "xref_row list" where
  "shared_xrefs =
     [\<lparr>from_book = ''1'', from_chapter = 1, from_verse = 1, to_book = ''43'',
       to_chapter = 1, to_verse_start = 1, to_verse_end = 3, votes = 5\<rparr>,
      \<lparr>from_book = ''1'', from_chapter = 1, from_verse = 1, to_book = ''58'',
       to_chapter = 11, to_verse_start = 3, to_verse_end = 3, votes = 9\<rparr>,
      \<lparr>from_book = ''1'', from_chapter = 1, from_verse = 2, to_book = ''24'',
       to_chapter = 4, to_verse_start = 23, to_verse_end = 23, votes = 7\<rparr>,
      \<lparr>from_book = ''1'', from_chapter = 1, from_verse = 1, to_book = ''19'',
       to_chapter = 33, to_verse_start = 6, to_verse_end = 6, votes = 5\<rparr>]"

definition shared_db :: database where
  "shared_db =
     \<lparr>translations_tbl = Inr [],
      books_tbl = no_table,
      verses_tbl = no_table,
      cross_references_tbl = Inr shared_xrefs,
      access_path = table_scan\<rparr>"

text \<open>
  The same shared dataset with an index on the votes: to answer \<^verbatim>\<open>ORDER BY votes DESC\<close>
  the engine walks the index from its end, and meets rows of equal votes last stored
  first.
\<close>

definition indexed_shared_db :: database where
  "indexed_shared_db = shared_db\<lparr>access_path := backward_scan\<rparr>"

definition blank_db :: database where
  "blank_db =
     \<lparr>translations_tbl = no_table ''translations'', books_tbl = no_table,
      verses_tbl = no_table, cross_references_tbl = no_table ''cross_references'',
      access_path = table_scan\<rparr>"

text \<open>
  The dataset behind the file \<^verbatim>\<open>A-B.db\<close>: the names derived from this identifier
  are not table names, so the engine rejects every statement that interpolates one.
\<close>

definition hyphen_db :: database where
  "hyphen_db =
     \<lparr>translations_tbl = no_table ''translations'', books_tbl = (\<lambda>n. Inl ''syntax error''),
      verses_tbl = (\<lambda>n. Inl ''syntax error''),
      cross_references_tbl = no_table ''cross_references'',
      access_path = table_scan\<rparr>"

definition sample_env :: env where
  "sample_env =
     \<lparr>path_exists = (\<lambda>p. p \<in> set [''bible_databases/formats/sqlite/KJV.db'',
                                     ''bible_databases/formats/sqlite/ASV.db'',
                                     ''bible_databases/formats/sqlite/translations.db'',
                                     ''bible_databases/formats/sqlite/A-B.db'',
                                     ''bible_databases/formats/sqlite/notes.txt'']),
      listdir = Some [''KJV.db'', ''notes.txt'', ''A-B.db'', ''ASV.db'', ''translations.db'',
                      ''GONE.db''],
      connect = (\<lambda>p. if p = ''bible_databases/formats/sqlite/KJV.db'' then Inr kjv_db
                      else if p = ''bible_databases/formats/sqlite/ASV.db'' then Inr asv_db
                      else if p = ''bible_databases/formats/sqlite/translations.db''
                      then Inr shared_db
                      else if p = ''bible_databases/formats/sqlite/A-B.db'' then Inr hyphen_db
                      else Inr blank_db)\<rparr>"

text \<open>The same deployment with the indexed shared dataset.\<close>

definition indexed_env :: env where
  "indexed_env = sample_env\<lparr>connect := (\<lambda>p. Inr indexed_shared_db)\<rparr>"

text \<open>The allow-list of the specification: letters, digits and the underscore.\<close>

definition allow_listed_char :: "char \<Rightarrow> bool" where
  "allow_listed_char c =
     (let n = (of_char c :: nat)
      in (65 \<le> n \<and> n \<le> 90) \<or> (97 \<le> n \<and> n \<le> 122) \<or> (48 \<le> n \<and> n \<le> 57) \<or> n = 95)"

definition allow_listed :: "string \<Rightarrow> bool" where
  "allow_listed s = list_all allow_listed_char s"

section \<open>The passage of the specification\<close>

text \<open>
  The verses a passage query asks for, in the words of the specification: within one
  chapter the verses from \<open>start_verse\<close> to \<open>end_verse\<close>; otherwise the tail of the
  start chapter, the chapters strictly in between, and the head of the end chapter.
\<close>

definition in_passage :: "int \<Rightarrow> int \<Rightarrow> int \<Rightarrow> int \<Rightarrow> int \<Rightarrow> verse_row \<Rightarrow> bool" where
  "in_passage book start_chapter start_verse end_chapter end_verse r \<longleftrightarrow>
     row_book_id r = book \<and>
     (if start_chapter = end_chapter
      then row_chapter r = start_chapter \<and> start_verse \<le> row_verse r \<and> row_verse r \<le> end_verse
      else (row_chapter r = start_chapter \<and> start_verse \<le> row_verse r) \<or>
           (start_chapter < row_chapter r \<and> row_chapter r < end_chapter) \<or>
           (row_chapter r = end_chapter \<and> row_verse r \<le> end_verse))"

definition chapter_verse :: "verse_row \<Rightarrow> int \<times> int" where
  "chapter_verse r = (row_chapter r, row_verse r)"

section \<open>Auxiliary notions for the counting and cross-reference properties\<close>

text \<open>
  The number of verses \<^verbatim>\<open>get_verses_in_chapter\<close> returns for a chapter (none when it
  fails).
\<close>

definition verse_count :: "env \<Rightarrow> string \<Rightarrow> int \<Rightarrow> int \<Rightarrow> int" where
  "verse_count e t book c =
     (case snd (get_verses_in_chapter e t book c) of
        Inl ex \<Rightarrow> 0
      | Inr verses \<Rightarrow> int (length verses))"

text \<open>The rows of the shared relation that start at the given coordinate, in storage order.\<close>

definition cross_reference_matches :: "xref_row list \<Rightarrow> int \<Rightarrow> int \<Rightarrow> int \<Rightarrow> xref_row list" where
  "cross_reference_matches table book_id ch verse =
     filter (\<lambda>r. from_book r = str_int book_id \<and> from_chapter r = ch \<and> from_verse r = verse) table"

section \<open>The scan of the specification\<close>

text \<open>
  The known physical datasets are the listed files whose name ends in \<^verbatim>\<open>.db\<close>. A
  dataset contributes the translation built from the one row read from its catalog,
  provided it opens, its catalog can be read, the row exists and is well formed.
\<close>

definition datasets :: "string list \<Rightarrow> string list" where
  "datasets filenames = filter (\<lambda>filename. endswith filename ''.db'') filenames"

definition opens :: "env \<Rightarrow> string \<Rightarrow> bool" where
  "opens e filename \<longleftrightarrow>
     (case get_db_connection e (path_join BASE_DB_PATH filename) of
        Inl ex \<Rightarrow> False
      | Inr db \<Rightarrow> True)"

definition catalog_entry :: "env \<Rightarrow> string \<Rightarrow> Translation option" where
  "catalog_entry e filename =
     (case get_db_connection e (path_join BASE_DB_PATH filename) of
        Inl ex \<Rightarrow> None
      | Inr db \<Rightarrow>
          (case translations_tbl db of
             Inl msg \<Rightarrow> None
           | Inr rows \<Rightarrow>
               (case deliver db SelectCatalog rows of
                  [] \<Rightarrow> None
                | row # more_rows \<Rightarrow> make_Translation row)))"

text \<open>The datasets whose pass raises: they fail to open, or their catalog cannot be read,
  or the row read from it is malformed.\<close>

definition scan_raises :: "env \<Rightarrow> string \<Rightarrow> bool" where
  "scan_raises e filename \<longleftrightarrow>
     (case get_db_connection e (path_join BASE_DB_PATH filename) of
        Inl ex \<Rightarrow> True
      | Inr db \<Rightarrow>
          (case translations_tbl db of
             Inl msg \<Rightarrow> True
           | Inr rows \<Rightarrow>
               (case deliver db SelectCatalog rows of
                  [] \<Rightarrow> False
                | row # more_rows \<Rightarrow> make_Translation row = None)))"

definition scan_entries :: "env \<Rightarrow> string list \<Rightarrow> Translation list" where
  "scan_entries e filenames = List.map_filter (catalog_entry e) (datasets filenames)"

text \<open>A search text without the two pattern characters of \<^verbatim>\<open>LIKE\<close>.\<close>

definition literal_query :: "string \<Rightarrow> bool" where
  "literal_query q \<longleftrightarrow> CHR ''%'' \<notin> set q \<and> CHR ''_'' \<notin> set q"

section \<open>Facts about identifiers and paths\<close>

lemma of_char_upper_char:
  "(of_char (upper_char c) :: nat) =
     (if 97 \<le> (of_char c :: nat) \<and> (of_char c :: nat) \<le> 122 then of_char c - 32 else of_char c)"
  by (auto simp: upper_char_def Let_def)

lemma upper_char_idem: "upper_char (upper_char c) = upper_char c"
proof -
  have "(of_char (upper_char (upper_char c)) :: nat) = of_char (upper_char c)"
    by (auto simp: of_char_upper_char)
  then show ?thesis by (simp only: of_char_eq_iff)
qed

lemma upper_idem: "upper (upper s) = upper s"
  by (simp add: upper_def upper_char_idem)

lemma upper_char_slash: "upper_char c = CHR ''/'' \<longleftrightarrow> c = CHR ''/''"
proof -
  have "upper_char c = CHR ''/'' \<longleftrightarrow> (of_char (upper_char c) :: nat) = of_char (CHR ''/'')"
    by (simp only: of_char_eq_iff)
  also have "\<dots> \<longleftrightarrow> (of_char c :: nat) = of_char (CHR ''/'')"
    by (auto simp: of_char_upper_char)
  finally show ?thesis by (simp only: of_char_eq_iff)
qed

lemma upper_char_not_lower: "\<not> lower_case (upper_char c)"
  by (auto simp: lower_case_def of_char_upper_char)

lemma BASE_DB_PATH_text: "BASE_DB_PATH = ''bible_databases/formats/sqlite''"
  by (simp add: BASE_DB_PATH_def path_join_def)

lemma GLOBAL_DB_FILE_text: "GLOBAL_DB_FILE = ''bible_databases/formats/sqlite/translations.db''"
  by (simp add: GLOBAL_DB_FILE_def BASE_DB_PATH_text path_join_def)

lemma db_file_text:
  "db_file t =
     (if t \<noteq> [] \<and> hd t = CHR ''/'' then upper t @ ''.db''
      else ''bible_databases/formats/sqlite/'' @ upper t @ ''.db'')"
  by (cases t) (simp_all add: db_file_def BASE_DB_PATH_text path_join_def upper_def upper_char_slash)

lemma db_file_upper: "db_file (upper t) = db_file t"
  by (simp add: db_file_def upper_idem)

section \<open>Facts about the engine\<close>

lemma execute_error [simp]: "execute (Inl msg) params query = Inl (Sqlite3Error msg)"
  by (simp add: execute_def)

lemma execute_rows [simp]:
  "execute (Inr rows) params query =
     (if list_all int64 params then Inr (query rows) else Inl OverflowError)"
  by (simp add: execute_def)

lemma sort_key_Nil_iff: "sort_key f xs = [] \<longleftrightarrow> xs = []"
proof -
  have "length (sort_key f xs) = length xs"
    by (rule length_sort)
  then show ?thesis
    by (metis length_0_conv)
qed

text \<open>Whatever the access path, the rows visited are the rows selected.\<close>

lemma mset_deliver:
  assumes "plan_ok db"
  shows "mset (deliver db q rows) = mset rows"
proof -
  let ?p = "access_path db q (length rows)"
  from assms have p: "mset ?p = mset [0..<length rows]"
    by (simp add: plan_ok_def)
  then have "set ?p = set [0..<length rows]"
    by (rule mset_eq_setD)
  then have "filter (\<lambda>i. i < length rows) ?p = ?p"
    by (auto simp: filter_id_conv)
  then have "mset (deliver db q rows) = image_mset (\<lambda>i. rows ! i) (mset ?p)"
    by (simp add: deliver_def)
  also have "\<dots> = mset (map (\<lambda>i. rows ! i) [0..<length rows])"
    by (simp add: p)
  also have "\<dots> = mset rows"
    by (simp add: map_nth)
  finally show ?thesis .
qed

lemma set_deliver: "plan_ok db \<Longrightarrow> set (deliver db q rows) = set rows"
  by (rule mset_eq_setD) (rule mset_deliver)

lemma length_deliver: "plan_ok db \<Longrightarrow> length (deliver db q rows) = length rows"
  by (rule mset_eq_length) (rule mset_deliver)

lemma deliver_Nil_iff: "plan_ok db \<Longrightarrow> deliver db q rows = [] \<longleftrightarrow> rows = []"
  using length_deliver [of db q rows] by (metis length_0_conv)

lemma deliver_table_scan: "access_path db = table_scan \<Longrightarrow> deliver db q rows = rows"
  by (simp add: deliver_def table_scan_def map_nth)

lemma deliver_backward_scan: "access_path db = backward_scan \<Longrightarrow> deliver db q rows = rev rows"
proof -
  assume a: "access_path db = backward_scan"
  have "filter (\<lambda>i. i < length rows) (rev [0..<length rows]) = rev [0..<length rows]"
    by (auto simp: filter_id_conv)
  then have "deliver db q rows = map (\<lambda>i. rows ! i) (rev [0..<length rows])"
    by (simp add: deliver_def a backward_scan_def)
  also have "\<dots> = rev (map (\<lambda>i. rows ! i) [0..<length rows])"
    by (simp add: rev_map)
  also have "\<dots> = rev rows"
    by (simp add: map_nth)
  finally show ?thesis .
qed

lemma plan_ok_table_scan: "access_path db = table_scan \<Longrightarrow> plan_ok db"
  by (simp add: plan_ok_def table_scan_def)

lemma plan_ok_backward_scan: "access_path db = backward_scan \<Longrightarrow> plan_ok db"
  by (simp add: plan_ok_def backward_scan_def)

section \<open>Running the endpoints on the sample datasets\<close>

lemma upper_kjv: "upper ''kjv'' = ''KJV''"
  by (simp add: upper_def upper_char_def char_of_def bit_0)

lemma upper_asv: "upper ''asv'' = ''ASV''"
  by (simp add: upper_def upper_char_def char_of_def bit_0)

lemma upper_web: "upper ''web'' = ''WEB''"
  by (simp add: upper_def upper_char_def char_of_def bit_0)

lemma upper_a_b: "upper ''a-b'' = ''A-B''"
  by (simp add: upper_def upper_char_def char_of_def bit_0)

lemma sample_kjv: "get_translation_db sample_env ''kjv'' = Inr kjv_db"
  by (simp add: get_translation_db_def get_db_connection_def db_file_text upper_kjv
      sample_env_def)

lemma sample_asv: "get_translation_db sample_env ''asv'' = Inr asv_db"
  by (simp add: get_translation_db_def get_db_connection_def db_file_text upper_asv
      sample_env_def)

lemma sample_a_b: "get_translation_db sample_env ''a-b'' = Inr hyphen_db"
  by (simp add: get_translation_db_def get_db_connection_def db_file_text upper_a_b
      sample_env_def)

lemma sample_web:
  "get_translation_db sample_env ''web'' =
     Inl (HTTPException 404 ''Database file bible_databases/formats/sqlite/WEB.db not found'')"
  by (simp add: get_translation_db_def get_db_connection_def db_file_text upper_web
      sample_env_def)

lemma kjv_verses_tbl: "verses_tbl kjv_db ''KJV_verses'' = Inr kjv_verses"
  by (simp add: kjv_db_def)

lemma asv_verses_tbl: "verses_tbl asv_db ''ASV_verses'' = Inr asv_verses"
  by (simp add: asv_db_def)

lemma kjv_deliver: "deliver kjv_db q rows = rows"
  by (rule deliver_table_scan) (simp add: kjv_db_def)

lemma asv_deliver: "deliver asv_db q rows = rows"
  by (rule deliver_table_scan) (simp add: asv_db_def)

lemma shared_deliver: "deliver shared_db q rows = rows"
  by (rule deliver_table_scan) (simp add: shared_db_def)

lemma indexed_deliver: "deliver indexed_shared_db q rows = rev rows"
  by (rule deliver_backward_scan) (simp add: indexed_shared_db_def shared_db_def)

lemma kjv_plan: "plan_ok kjv_db"
  by (rule plan_ok_table_scan) (simp add: kjv_db_def)

lemma asv_plan: "plan_ok asv_db"
  by (rule plan_ok_table_scan) (simp add: asv_db_def)

lemma shared_plan: "plan_ok shared_db"
  by (rule plan_ok_table_scan) (simp add: shared_db_def)

lemma indexed_plan: "plan_ok indexed_shared_db"
  by (rule plan_ok_backward_scan) (simp add: indexed_shared_db_def shared_db_def)

section \<open>The dataset locator\<close>

text \<open>
  Claim C8. For an ASCII identifier the locator works on its upper-case form: the same
  text with every letter a..z replaced by its capital, so that no lower-case letter is
  left and two identifiers that differ only in case are located alike. The path it opens
  is the base directory joined with \<open><ID>.db\<close> (an identifier that starts with a slash
  replaces the base directory, as \<^verbatim>\<open>os.path.join\<close> does), and it fails with the 404
  "Database file ... not found" exactly when that path does not exist.
\<close>

theorem C8_dataset_locator:
  assumes "ascii t"
  shows "length (upper t) = length t \<and>
         (\<forall>i < length t.
            upper t ! i =
              (if lower_case (t ! i) then char_of ((of_char (t ! i) :: nat) - 32) else t ! i)) \<and>
         list_all (\<lambda>c. \<not> lower_case c) (upper t) \<and>
         db_file t =
           (if t \<noteq> [] \<and> hd t = CHR ''/'' then upper t @ ''.db''
            else ''bible_databases/formats/sqlite/'' @ upper t @ ''.db'') \<and>
         get_translation_db e t = get_db_connection e (db_file t) \<and>
         get_translation_db e t = get_translation_db e (upper t) \<and>
         (upper t = upper u \<longrightarrow> get_translation_db e t = get_translation_db e u) \<and>
         ((\<exists>detail. get_translation_db e t = Inl (HTTPException 404 detail)) \<longleftrightarrow>
            \<not> path_exists e (db_file t)) \<and>
         (get_translation_db e t =
            Inl (HTTPException 404 (''Database file '' @ db_file t @ '' not found'')) \<longleftrightarrow>
            \<not> path_exists e (db_file t))"
proof -
  have len: "length (upper t) = length t"
    by (simp add: upper_def)
  have pointwise: "\<forall>i < length t.
            upper t ! i =
              (if lower_case (t ! i) then char_of ((of_char (t ! i) :: nat) - 32) else t ! i)"
    by (simp add: upper_def upper_char_def lower_case_def Let_def)
  have capitals: "list_all (\<lambda>c. \<not> lower_case c) (upper t)"
    by (simp add: upper_def list_all_iff upper_char_not_lower)
  have a: "get_translation_db e t = get_translation_db e (upper t)"
    by (simp add: get_translation_db_def db_file_upper)
  have b: "get_translation_db e t = get_db_connection e (db_file t)"
    by (simp add: get_translation_db_def)
  have same: "upper t = upper u \<longrightarrow> get_translation_db e t = get_translation_db e u"
    by (simp add: get_translation_db_def db_file_def)
  have c: "(\<exists>detail. get_translation_db e t = Inl (HTTPException 404 detail)) \<longleftrightarrow>
      \<not> path_exists e (db_file t)"
    by (auto simp: get_translation_db_def get_db_connection_def split: sum.splits)
  have d: "get_translation_db e t =
      Inl (HTTPException 404 (''Database file '' @ db_file t @ '' not found'')) \<longleftrightarrow>
      \<not> path_exists e (db_file t)"
    by (auto simp: get_translation_db_def get_db_connection_def split: sum.splits)
  from len pointwise capitals a b same c d db_file_text show ?thesis
    by blast
qed

theorem C8_dataset_locator_witness:
  "ascii ''kjv'' \<and> upper ''kjv'' = ''KJV'' \<and> upper ''kjv'' = upper ''KJV'' \<and>
   list_all (\<lambda>c. \<not> lower_case c) (upper ''kjv'') \<and>
   db_file ''kjv'' = ''bible_databases/formats/sqlite/KJV.db'' \<and>
   get_translation_db sample_env ''kjv'' = get_translation_db sample_env ''KJV'' \<and>
   get_translation_db sample_env ''kjv'' = Inr kjv_db \<and>
   ascii ''web'' \<and> \<not> path_exists sample_env (db_file ''web'') \<and>
   get_translation_db sample_env ''web'' =
     Inl (HTTPException 404 (''Database file '' @ db_file ''web'' @ '' not found''))"
proof -
  have k: "ascii ''kjv''" and w: "ascii ''web''"
    by (simp_all add: ascii_def)
  have u: "upper ''kjv'' = upper ''KJV''"
    by (simp add: upper_def upper_char_def char_of_def bit_0)
  have n: "\<not> path_exists sample_env (db_file ''web'')"
    by (simp add: db_file_text upper_web sample_env_def)
  have p: "db_file ''kjv'' = ''bible_databases/formats/sqlite/KJV.db''"
    by (simp add: db_file_text upper_kjv)
  note kjv = C8_dataset_locator [OF k, where e = sample_env and u = "''KJV''"]
  note web = C8_dataset_locator [OF w, where e = sample_env and u = "''KJV''"]
  from kjv have caps: "list_all (\<lambda>c. \<not> lower_case c) (upper ''kjv'')"
    by blast
  from kjv u have same: "get_translation_db sample_env ''kjv'' = get_translation_db sample_env ''KJV''"
    by blast
  from web n have missing: "get_translation_db sample_env ''web'' =
      Inl (HTTPException 404 (''Database file '' @ db_file ''web'' @ '' not found''))"
    by blast
  from k w u n p caps same missing sample_kjv upper_kjv show ?thesis
    by blast
qed

section \<open>Comparing two translations\<close>

lemma deliver_Nil [simp]: "deliver db q [] = []"
  by (simp add: deliver_def)

lemma compare_side_zero:
  "compare_side db table_name book ch (Some 0) = compare_side db table_name book ch None"
  by (simp add: compare_side_def)

lemma compare_loop_zero:
  "compare_loop e book ch (Some 0) ts tr result = compare_loop e book ch None ts tr result"
  by (induction ts arbitrary: tr result) (simp_all add: compare_side_zero split: sum.splits)

lemma compare_side_statement:
  "fst (compare_side db table_name book ch verse) =
     (case verse of
        None \<Rightarrow> SelectChapterRows table_name book ch
      | Some v \<Rightarrow> if v = 0 then SelectChapterRows table_name book ch
                  else SelectSingleVerse table_name book ch v)"
  by (simp add: compare_side_def split: option.splits)

text \<open>The loop over the two translations, written out.\<close>

lemma compare_loop_two:
  "compare_loop e book ch verse [ta, tb] [] Map.empty =
     (case get_translation_db e ta of
        Inl ex \<Rightarrow> ([], Inl ex)
      | Inr dba \<Rightarrow>
          (case snd (compare_side dba (upper ta @ ''_verses'') book ch verse) of
             Inl ex \<Rightarrow>
               (session (db_file ta)
                  (fst (compare_side dba (upper ta @ ''_verses'') book ch verse)),
                Inl ex)
           | Inr va \<Rightarrow>
               (case get_translation_db e tb of
                  Inl ex \<Rightarrow>
                    (session (db_file ta)
                       (fst (compare_side dba (upper ta @ ''_verses'') book ch verse)),
                     Inl ex)
                | Inr dbb \<Rightarrow>
                    (case snd (compare_side dbb (upper tb @ ''_verses'') book ch verse) of
                       Inl ex \<Rightarrow>
                         (session (db_file ta)
                            (fst (compare_side dba (upper ta @ ''_verses'') book ch verse)) @
                          session (db_file tb)
                            (fst (compare_side dbb (upper tb @ ''_verses'') book ch verse)),
                          Inl ex)
                     | Inr vb \<Rightarrow>
                         (session (db_file ta)
                            (fst (compare_side dba (upper ta @ ''_verses'') book ch verse)) @
                          session (db_file tb)
                            (fst (compare_side dbb (upper tb @ ''_verses'') book ch verse)),
                          Inr [upper ta \<mapsto> va, upper tb \<mapsto> vb])))))"
  by (simp split: sum.splits prod.splits)

text \<open>What one side stores, case by case.\<close>

lemma compare_side_chapter:
  assumes "verse = None \<or> verse = Some 0"
    and "verses_tbl db table_name = Inr rows" and "int64 book" and "int64 ch"
  shows "compare_side db table_name book ch verse =
           (SelectChapterRows table_name book ch,
            Inr (RowDicts (map (\<lambda>r. (row_chapter r, row_verse r, row_text r))
                    (chapter_rows db (SelectChapterRows table_name book ch) rows book ch))))"
  using assms by (auto simp: compare_side_def exec_chapter_verses_def capture_def)

lemma compare_side_verse:
  assumes "v \<noteq> 0"
    and "verses_tbl db table_name = Inr rows" and "int64 book" and "int64 ch" and "int64 v"
  shows "compare_side db table_name book ch (Some v) =
           (SelectSingleVerse table_name book ch v,
            Inr (case fetchone (deliver db (SelectSingleVerse table_name book ch v)
                                  (filter (\<lambda>r. row_book_id r = book \<and> row_chapter r = ch \<and>
                                                row_verse r = v) rows)) of
                   None \<Rightarrow> Str ''Verse not found''
                 | Some row \<Rightarrow> VerseDict (row_verse row) (row_text row)))"
  using assms by (simp add: compare_side_def exec_single_verse_def capture_def)

lemma compare_side_error:
  "verses_tbl db table_name = Inl msg \<Longrightarrow>
   snd (compare_side db table_name book ch verse) = Inr (Str (''Error: '' @ msg))"
  by (simp add: compare_side_def exec_single_verse_def exec_chapter_verses_def capture_def)

lemma compare_side_overflow:
  assumes "verses_tbl db table_name = Inr rows"
    and "\<not> int64 book \<or> \<not> int64 ch \<or> (\<exists>v. verse = Some v \<and> v \<noteq> 0 \<and> \<not> int64 v)"
  shows "snd (compare_side db table_name book ch verse) = Inl OverflowError"
  using assms
  by (auto simp: compare_side_def exec_single_verse_def exec_chapter_verses_def capture_def)

text \<open>
  Claim C10. A comparison requested for verse 0 is the whole-chapter comparison. When
  both datasets open, their verses relations can be read and book and chapter fit in 64
  bits, the call with verse 0 runs the whole-chapter statement on each translation and
  stores the rows of the chapter as a list under each of them. In every case its outcome
  is that of the call without a verse, no single-verse statement is executed, and the
  loop body runs the single-verse statement only for a verse other than 0.
\<close>

theorem C10_compare_verse_zero:
  "(get_translation_db e ta = Inr dba \<and> get_translation_db e tb = Inr dbb \<and>
    verses_tbl dba (upper ta @ ''_verses'') = Inr rowsa \<and>
    verses_tbl dbb (upper tb @ ''_verses'') = Inr rowsb \<and> int64 book \<and> int64 ch \<longrightarrow>
      compare_translations e ta tb book ch (Some 0) =
        (session (db_file ta) (SelectChapterRows (upper ta @ ''_verses'') book ch) @
         session (db_file tb) (SelectChapterRows (upper tb @ ''_verses'') book ch),
         Inr [upper ta \<mapsto>
                RowDicts (map (\<lambda>r. (row_chapter r, row_verse r, row_text r))
                  (chapter_rows dba (SelectChapterRows (upper ta @ ''_verses'') book ch)
                     rowsa book ch)),
              upper tb \<mapsto>
                RowDicts (map (\<lambda>r. (row_chapter r, row_verse r, row_text r))
                  (chapter_rows dbb (SelectChapterRows (upper tb @ ''_verses'') book ch)
                     rowsb book ch))])) \<and>
   compare_translations e ta tb book ch (Some 0) =
     compare_translations e ta tb book ch None \<and>
   list_all (\<lambda>ev. \<forall>table_name. ev \<noteq> Execute (SelectSingleVerse table_name book ch 0))
     (fst (compare_translations e ta tb book ch (Some 0))) \<and>
   fst (compare_side db table_name book ch (Some v)) =
     (if v = 0 then SelectChapterRows table_name book ch
      else SelectSingleVerse table_name book ch v)"
proof -
  have rows: "get_translation_db e ta = Inr dba \<and> get_translation_db e tb = Inr dbb \<and>
    verses_tbl dba (upper ta @ ''_verses'') = Inr rowsa \<and>
    verses_tbl dbb (upper tb @ ''_verses'') = Inr rowsb \<and> int64 book \<and> int64 ch \<longrightarrow>
      compare_translations e ta tb book ch (Some 0) =
        (session (db_file ta) (SelectChapterRows (upper ta @ ''_verses'') book ch) @
         session (db_file tb) (SelectChapterRows (upper tb @ ''_verses'') book ch),
         Inr [upper ta \<mapsto>
                RowDicts (map (\<lambda>r. (row_chapter r, row_verse r, row_text r))
                  (chapter_rows dba (SelectChapterRows (upper ta @ ''_verses'') book ch)
                     rowsa book ch)),
              upper tb \<mapsto>
                RowDicts (map (\<lambda>r. (row_chapter r, row_verse r, row_text r))
                  (chapter_rows dbb (SelectChapterRows (upper tb @ ''_verses'') book ch)
                     rowsb book ch))])"
  proof (intro impI, elim conjE)
    assume a: "get_translation_db e ta = Inr dba" "get_translation_db e tb = Inr dbb"
      and ra: "verses_tbl dba (upper ta @ ''_verses'') = Inr rowsa"
      and rb: "verses_tbl dbb (upper tb @ ''_verses'') = Inr rowsb"
      and i: "int64 book" "int64 ch"
    have "Some (0::int) = None \<or> Some (0::int) = Some 0"
      by simp
    from compare_side_chapter [OF this ra i] compare_side_chapter [OF this rb i] a
    show "compare_translations e ta tb book ch (Some 0) =
        (session (db_file ta) (SelectChapterRows (upper ta @ ''_verses'') book ch) @
         session (db_file tb) (SelectChapterRows (upper tb @ ''_verses'') book ch),
         Inr [upper ta \<mapsto>
                RowDicts (map (\<lambda>r. (row_chapter r, row_verse r, row_text r))
                  (chapter_rows dba (SelectChapterRows (upper ta @ ''_verses'') book ch)
                     rowsa book ch)),
              upper tb \<mapsto>
                RowDicts (map (\<lambda>r. (row_chapter r, row_verse r, row_text r))
                  (chapter_rows dbb (SelectChapterRows (upper tb @ ''_verses'') book ch)
                     rowsb book ch))])"
      by (simp add: compare_translations_def compare_loop_two del: compare_loop.simps)
  qed
  have same: "compare_translations e ta tb book ch (Some 0) =
     compare_translations e ta tb book ch None"
    by (simp add: compare_translations_def compare_loop_zero del: compare_loop.simps)
  have none: "list_all (\<lambda>ev. \<forall>table_name. ev \<noteq> Execute (SelectSingleVerse table_name book ch 0))
     (fst (compare_translations e ta tb book ch (Some 0)))"
    by (simp add: compare_translations_def compare_loop_two compare_side_statement session_def
        del: compare_loop.simps split: sum.splits)
  have stmt: "fst (compare_side db table_name book ch (Some v)) =
     (if v = 0 then SelectChapterRows table_name book ch
      else SelectSingleVerse table_name book ch v)"
    by (simp add: compare_side_statement)
  from rows same none stmt show ?thesis
    by blast
qed

theorem C10_compare_verse_zero_witness:
  "get_translation_db sample_env ''kjv'' = Inr kjv_db \<and>
   get_translation_db sample_env ''asv'' = Inr asv_db \<and>
   verses_tbl kjv_db (upper ''kjv'' @ ''_verses'') = Inr kjv_verses \<and>
   verses_tbl asv_db (upper ''asv'' @ ''_verses'') = Inr asv_verses \<and> int64 1 \<and>
   compare_translations sample_env ''kjv'' ''asv'' 1 1 (Some 0) =
     ([Connect ''bible_databases/formats/sqlite/KJV.db'',
       Execute (SelectChapterRows ''KJV_verses'' 1 1),
       Close ''bible_databases/formats/sqlite/KJV.db'',
       Connect ''bible_databases/formats/sqlite/ASV.db'',
       Execute (SelectChapterRows ''ASV_verses'' 1 1),
       Close ''bible_databases/formats/sqlite/ASV.db''],
      Inr [''KJV'' \<mapsto> RowDicts [(1, 30, ''and it was so''), (1, 31, ''God saw abc'')],
           ''ASV'' \<mapsto> RowDicts [(1, 31, ''And God saw everything'')]])"
proof -
  have ra: "verses_tbl kjv_db (upper ''kjv'' @ ''_verses'') = Inr kjv_verses"
    by (simp add: upper_kjv kjv_verses_tbl)
  have rb: "verses_tbl asv_db (upper ''asv'' @ ''_verses'') = Inr asv_verses"
    by (simp add: upper_asv asv_verses_tbl)
  have i: "int64 1"
    by (simp add: int64_def)
  from C10_compare_verse_zero [of sample_env "''kjv''" kjv_db "''asv''" asv_db kjv_verses
      asv_verses 1 1] sample_kjv sample_asv ra rb i
  show ?thesis
    by (simp add: upper_kjv upper_asv db_file_text session_def chapter_rows_def kjv_deliver
        asv_deliver kjv_verses_def asv_verses_def)
qed

section \<open>Partial failure in the comparison\<close>

lemma compare_side_value:
  assumes "int64 book" and "int64 ch" and "\<forall>v. verse = Some v \<longrightarrow> int64 v"
  shows "\<exists>va. snd (compare_side db table_name book ch verse) = Inr va"
proof (cases "verses_tbl db table_name")
  case (Inl msg)
  then show ?thesis
    by (simp add: compare_side_error)
next
  case (Inr rows)
  show ?thesis
  proof (cases "verse = None \<or> verse = Some 0")
    case True
    from compare_side_chapter [OF True Inr assms(1,2)] show ?thesis
      by simp
  next
    case False
    then obtain v where v: "verse = Some v" "v \<noteq> 0"
      by auto
    with assms(3) have "int64 v"
      by simp
    from compare_side_verse [OF v(2) Inr assms(1,2) this] v(1) show ?thesis
      by simp
  qed
qed

text \<open>
  Claim C1, as stated, fails: the dataset is opened outside the \<^verbatim>\<open>try\<close> block, so a
  dataset that is not found aborts the comparison. With the first dataset missing nothing
  is looked up at all; with the second one missing the first side's lookup is discarded.
\<close>

theorem C1_compare_abort_counterexample:
  "compare_translations sample_env ''web'' ''kjv'' 1 1 None =
     ([], Inl (HTTPException 404 ''Database file bible_databases/formats/sqlite/WEB.db not found'')) \<and>
   compare_translations sample_env ''kjv'' ''web'' 1 1 None =
     ([Connect ''bible_databases/formats/sqlite/KJV.db'',
       Execute (SelectChapterRows ''KJV_verses'' 1 1),
       Close ''bible_databases/formats/sqlite/KJV.db''],
      Inl (HTTPException 404 ''Database file bible_databases/formats/sqlite/WEB.db not found''))"
proof -
  have i: "int64 1"
    by (simp add: int64_def)
  have "None = None \<or> None = Some (0::int)"
    by simp
  from compare_side_chapter [OF this kjv_verses_tbl i i] sample_kjv sample_web show ?thesis
    by (simp add: compare_translations_def compare_loop_two upper_kjv db_file_text session_def
        del: compare_loop.simps)
qed

text \<open>
  Claim C1, amended. When both datasets can be opened and the book, the chapter and the
  verse fit in 64 bits, the result has an entry for both translations, each holding what
  its own side computed: an engine error on a side is stored as the string
  \<^verbatim>\<open>Error: ...\<close>, a missing verse as the string \<^verbatim>\<open>Verse not found\<close>, and a chapter
  without verses as the empty list, which is no error value. A dataset that cannot be
  opened ends the whole comparison with that exception, and so does a number outside 64
  bits, with \<^verbatim>\<open>OverflowError\<close>.
\<close>

theorem C1_compare_sides:
  "(get_translation_db e ta = Inr dba \<and> get_translation_db e tb = Inr dbb \<and>
    int64 book \<and> int64 ch \<and> (\<forall>v. verse = Some v \<longrightarrow> int64 v) \<longrightarrow>
      (\<exists>result va vb.
          snd (compare_side dba (upper ta @ ''_verses'') book ch verse) = Inr va \<and>
          snd (compare_side dbb (upper tb @ ''_verses'') book ch verse) = Inr vb \<and>
          result = [upper ta \<mapsto> va, upper tb \<mapsto> vb] \<and>
          upper ta \<in> dom result \<and> upper tb \<in> dom result \<and>
          compare_translations e ta tb book ch verse =
            (session (db_file ta)
               (fst (compare_side dba (upper ta @ ''_verses'') book ch verse)) @
             session (db_file tb)
               (fst (compare_side dbb (upper tb @ ''_verses'') book ch verse)),
             Inr result))) \<and>
   (verses_tbl db table_name = Inl msg \<longrightarrow>
      snd (compare_side db table_name book ch verse) = Inr (Str (''Error: '' @ msg))) \<and>
   (verse = Some v \<and> v \<noteq> 0 \<and> int64 book \<and> int64 ch \<and> int64 v \<and>
    verses_tbl db table_name = Inr rows \<and>
    filter (\<lambda>r. row_book_id r = book \<and> row_chapter r = ch \<and> row_verse r = v) rows = [] \<longrightarrow>
      snd (compare_side db table_name book ch verse) = Inr (Str ''Verse not found'')) \<and>
   ((verse = None \<or> verse = Some 0) \<and> int64 book \<and> int64 ch \<and>
    verses_tbl db table_name = Inr rows \<and>
    filter (\<lambda>r. row_book_id r = book \<and> row_chapter r = ch) rows = [] \<longrightarrow>
      snd (compare_side db table_name book ch verse) = Inr (RowDicts [])) \<and>
   (get_translation_db e ta = Inl ex \<longrightarrow>
      compare_translations e ta tb book ch verse = ([], Inl ex)) \<and>
   (get_translation_db e ta = Inr dba \<and> get_translation_db e tb = Inl ex \<and>
    int64 book \<and> int64 ch \<and> (\<forall>v. verse = Some v \<longrightarrow> int64 v) \<longrightarrow>
      snd (compare_translations e ta tb book ch verse) = Inl ex) \<and>
   (get_translation_db e ta = Inr dba \<and> verses_tbl dba (upper ta @ ''_verses'') = Inr rows \<and>
    (\<not> int64 book \<or> \<not> int64 ch \<or> (\<exists>v. verse = Some v \<and> v \<noteq> 0 \<and> \<not> int64 v)) \<longrightarrow>
      snd (compare_translations e ta tb book ch verse) = Inl OverflowError)"
proof -
  have both: "get_translation_db e ta = Inr dba \<and> get_translation_db e tb = Inr dbb \<and>
    int64 book \<and> int64 ch \<and> (\<forall>v. verse = Some v \<longrightarrow> int64 v) \<longrightarrow>
      (\<exists>result va vb.
          snd (compare_side dba (upper ta @ ''_verses'') book ch verse) = Inr va \<and>
          snd (compare_side dbb (upper tb @ ''_verses'') book ch verse) = Inr vb \<and>
          result = [upper ta \<mapsto> va, upper tb \<mapsto> vb] \<and>
          upper ta \<in> dom result \<and> upper tb \<in> dom result \<and>
          compare_translations e ta tb book ch verse =
            (session (db_file ta)
               (fst (compare_side dba (upper ta @ ''_verses'') book ch verse)) @
             session (db_file tb)
               (fst (compare_side dbb (upper tb @ ''_verses'') book ch verse)),
             Inr result))"
  proof (intro impI, elim conjE)
    assume a: "get_translation_db e ta = Inr dba" "get_translation_db e tb = Inr dbb"
      and i: "int64 book" "int64 ch" "\<forall>v. verse = Some v \<longrightarrow> int64 v"
    from compare_side_value [OF i] obtain va where
      va: "snd (compare_side dba (upper ta @ ''_verses'') book ch verse) = Inr va"
      by blast
    from compare_side_value [OF i] obtain vb where
      vb: "snd (compare_side dbb (upper tb @ ''_verses'') book ch verse) = Inr vb"
      by blast
    have "compare_translations e ta tb book ch verse =
            (session (db_file ta)
               (fst (compare_side dba (upper ta @ ''_verses'') book ch verse)) @
             session (db_file tb)
               (fst (compare_side dbb (upper tb @ ''_verses'') book ch verse)),
             Inr [upper ta \<mapsto> va, upper tb \<mapsto> vb])"
      using a va vb
      by (simp add: compare_translations_def compare_loop_two del: compare_loop.simps)
    with va vb show "\<exists>result va vb.
          snd (compare_side dba (upper ta @ ''_verses'') book ch verse) = Inr va \<and>
          snd (compare_side dbb (upper tb @ ''_verses'') book ch verse) = Inr vb \<and>
          result = [upper ta \<mapsto> va, upper tb \<mapsto> vb] \<and>
          upper ta \<in> dom result \<and> upper tb \<in> dom result \<and>
          compare_translations e ta tb book ch verse =
            (session (db_file ta)
               (fst (compare_side dba (upper ta @ ''_verses'') book ch verse)) @
             session (db_file tb)
               (fst (compare_side dbb (upper tb @ ''_verses'') book ch verse)),
             Inr result)"
      by auto
  qed
  have err: "verses_tbl db table_name = Inl msg \<longrightarrow>
      snd (compare_side db table_name book ch verse) = Inr (Str (''Error: '' @ msg))"
    by (simp add: compare_side_error)
  have missing: "verse = Some v \<and> v \<noteq> 0 \<and> int64 book \<and> int64 ch \<and> int64 v \<and>
    verses_tbl db table_name = Inr rows \<and>
    filter (\<lambda>r. row_book_id r = book \<and> row_chapter r = ch \<and> row_verse r = v) rows = [] \<longrightarrow>
      snd (compare_side db table_name book ch verse) = Inr (Str ''Verse not found'')"
    by (auto simp: compare_side_verse fetchone_def)
  have empty: "(verse = None \<or> verse = Some 0) \<and> int64 book \<and> int64 ch \<and>
    verses_tbl db table_name = Inr rows \<and>
    filter (\<lambda>r. row_book_id r = book \<and> row_chapter r = ch) rows = [] \<longrightarrow>
      snd (compare_side db table_name book ch verse) = Inr (RowDicts [])"
    by (auto simp: compare_side_chapter chapter_rows_def)
  have aborta: "get_translation_db e ta = Inl ex \<longrightarrow>
      compare_translations e ta tb book ch verse = ([], Inl ex)"
    by (simp add: compare_translations_def compare_loop_two del: compare_loop.simps)
  have abortb: "get_translation_db e ta = Inr dba \<and> get_translation_db e tb = Inl ex \<and>
    int64 book \<and> int64 ch \<and> (\<forall>v. verse = Some v \<longrightarrow> int64 v) \<longrightarrow>
      snd (compare_translations e ta tb book ch verse) = Inl ex"
  proof (intro impI, elim conjE)
    assume a: "get_translation_db e ta = Inr dba" "get_translation_db e tb = Inl ex"
      and i: "int64 book" "int64 ch" "\<forall>v. verse = Some v \<longrightarrow> int64 v"
    from compare_side_value [OF i] obtain va where
      "snd (compare_side dba (upper ta @ ''_verses'') book ch verse) = Inr va"
      by blast
    with a show "snd (compare_translations e ta tb book ch verse) = Inl ex"
      by (simp add: compare_translations_def compare_loop_two del: compare_loop.simps)
  qed
  have overflow: "get_translation_db e ta = Inr dba \<and>
    verses_tbl dba (upper ta @ ''_verses'') = Inr rows \<and>
    (\<not> int64 book \<or> \<not> int64 ch \<or> (\<exists>v. verse = Some v \<and> v \<noteq> 0 \<and> \<not> int64 v)) \<longrightarrow>
      snd (compare_translations e ta tb book ch verse) = Inl OverflowError"
  proof (intro impI, elim conjE)
    assume a: "get_translation_db e ta = Inr dba"
      and r: "verses_tbl dba (upper ta @ ''_verses'') = Inr rows"
      and o: "\<not> int64 book \<or> \<not> int64 ch \<or> (\<exists>v. verse = Some v \<and> v \<noteq> 0 \<and> \<not> int64 v)"
    from compare_side_overflow [OF r o] a
    show "snd (compare_translations e ta tb book ch verse) = Inl OverflowError"
      by (simp add: compare_translations_def compare_loop_two del: compare_loop.simps)
  qed
  from both err missing empty aborta abortb overflow show ?thesis
    by blast
qed

theorem C1_compare_sides_witness:
  "get_translation_db sample_env ''kjv'' = Inr kjv_db \<and>
   get_translation_db sample_env ''asv'' = Inr asv_db \<and> int64 1 \<and> int64 30 \<and>
   compare_translations sample_env ''kjv'' ''asv'' 1 1 (Some 30) =
     ([Connect ''bible_databases/formats/sqlite/KJV.db'',
       Execute (SelectSingleVerse ''KJV_verses'' 1 1 30),
       Close ''bible_databases/formats/sqlite/KJV.db'',
       Connect ''bible_databases/formats/sqlite/ASV.db'',
       Execute (SelectSingleVerse ''ASV_verses'' 1 1 30),
       Close ''bible_databases/formats/sqlite/ASV.db''],
      Inr [''KJV'' \<mapsto> VerseDict 30 ''and it was so'', ''ASV'' \<mapsto> Str ''Verse not found'']) \<and>
   snd (compare_side asv_db ''ASV_verses'' 1 2 None) = Inr (RowDicts []) \<and>
   snd (compare_side hyphen_db ''A-B_verses'' 1 1 (Some 30)) =
     Inr (Str ''Error: syntax error'') \<and>
   snd (compare_translations sample_env ''kjv'' ''web'' 1 1 (Some 30)) =
     Inl (HTTPException 404 ''Database file bible_databases/formats/sqlite/WEB.db not found'') \<and>
   \<not> int64 (2 ^ 63) \<and>
   snd (compare_translations sample_env ''kjv'' ''asv'' 1 1 (Some (2 ^ 63))) = Inl OverflowError"
proof -
  have i: "int64 1" "int64 2" "int64 30" "\<not> int64 (2 ^ 63)"
    by (simp_all add: int64_def)
  have i30: "\<forall>v. Some (30::int) = Some v \<longrightarrow> int64 v"
    using i by simp
  have vh: "verses_tbl hyphen_db ''A-B_verses'' = Inl ''syntax error''"
    by (simp add: hyphen_db_def)
  have va: "snd (compare_side kjv_db ''KJV_verses'' 1 1 (Some 30)) =
              Inr (VerseDict 30 ''and it was so'')"
    using compare_side_verse [OF _ kjv_verses_tbl i(1) i(1) i(3)]
    by (simp add: kjv_deliver kjv_verses_def fetchone_def)
  note both = C1_compare_sides [where e = sample_env and ta = "''kjv''" and tb = "''asv''"
      and dba = kjv_db and dbb = asv_db and book = 1 and ch = 1 and verse = "Some 30"
      and v = 30 and db = asv_db and table_name = "''ASV_verses''" and rows = asv_verses]
  note chapter_two = C1_compare_sides [where db = asv_db and table_name = "''ASV_verses''"
      and rows = asv_verses and book = 1 and ch = 2 and verse = None]
  note errs = C1_compare_sides [where db = hyphen_db and table_name = "''A-B_verses''"
      and msg = "''syntax error''" and book = 1 and ch = 1 and verse = "Some 30"
      and e = sample_env and ta = "''kjv''" and tb = "''web''" and dba = kjv_db
      and ex = "HTTPException 404
                  ''Database file bible_databases/formats/sqlite/WEB.db not found''"]
  note big = C1_compare_sides [where e = sample_env and ta = "''kjv''" and tb = "''asv''"
      and dba = kjv_db and rows = kjv_verses and book = 1 and ch = 1
      and verse = "Some (2 ^ 63)"]
  have nf: "snd (compare_side asv_db ''ASV_verses'' 1 1 (Some 30)) = Inr (Str ''Verse not found'')"
    using both i asv_verses_tbl by (simp add: asv_verses_def)
  from both sample_kjv sample_asv i i30 va nf
  have main: "compare_translations sample_env ''kjv'' ''asv'' 1 1 (Some 30) =
     ([Connect ''bible_databases/formats/sqlite/KJV.db'',
       Execute (SelectSingleVerse ''KJV_verses'' 1 1 30),
       Close ''bible_databases/formats/sqlite/KJV.db'',
       Connect ''bible_databases/formats/sqlite/ASV.db'',
       Execute (SelectSingleVerse ''ASV_verses'' 1 1 30),
       Close ''bible_databases/formats/sqlite/ASV.db''],
      Inr [''KJV'' \<mapsto> VerseDict 30 ''and it was so'', ''ASV'' \<mapsto> Str ''Verse not found''])"
    by (auto simp: upper_kjv upper_asv db_file_text session_def compare_side_statement)
  from chapter_two i asv_verses_tbl
  have empty: "snd (compare_side asv_db ''ASV_verses'' 1 2 None) = Inr (RowDicts [])"
    by (simp add: asv_verses_def)
  from errs vh have err: "snd (compare_side hyphen_db ''A-B_verses'' 1 1 (Some 30)) =
      Inr (Str ''Error: syntax error'')"
    by simp
  from errs sample_kjv sample_web i i30
  have abort: "snd (compare_translations sample_env ''kjv'' ''web'' 1 1 (Some 30)) =
     Inl (HTTPException 404 ''Database file bible_databases/formats/sqlite/WEB.db not found'')"
    by simp
  from big sample_kjv kjv_verses_tbl i
  have over: "snd (compare_translations sample_env ''kjv'' ''asv'' 1 1 (Some (2 ^ 63))) =
      Inl OverflowError"
    by (simp add: upper_kjv)
  from sample_kjv sample_asv i main empty err abort over show ?thesis
    by blast
qed

section \<open>Identifiers are not validated\<close>

text \<open>
  Claim C2, as stated, fails: the identifier \<^verbatim>\<open>a-b\<close> is outside the allow-list, yet
  the statement with the derived name \<^verbatim>\<open>A-B_books\<close> reaches the engine, and the
  request ends in the engine's error (500), not in a validation error.
\<close>

theorem C2_hyphen_counterexample:
  "\<not> allow_listed ''a-b'' \<and>
   get_books_for_translation sample_env ''a-b'' =
     ([Connect ''bible_databases/formats/sqlite/A-B.db'',
       Execute (SelectBooks ''A-B_books''),
       Close ''bible_databases/formats/sqlite/A-B.db''],
      Inl (HTTPException 500 ''Error fetching books: syntax error''))"
  by (simp add: allow_listed_def allow_listed_char_def get_books_for_translation_def session_def
      Let_def sample_a_b db_file_text upper_a_b hyphen_db_def exec_books_def reraise_def)

text \<open>
  Claim C2, amended. The locator applies no allow-list: the only rejection before a
  statement is executed is a dataset that does not exist or cannot be opened. Whenever the
  dataset of the upper-cased identifier opens, the books statement with the derived name
  \<open><ID>_books\<close> is executed, whatever characters the identifier has.
\<close>

theorem C2_no_identifier_validation:
  "(Execute (SelectBooks (upper t @ ''_books'')) \<in> set (fst (get_books_for_translation e t)) \<longleftrightarrow>
      (\<exists>db. get_translation_db e t = Inr db)) \<and>
   (fst (get_books_for_translation e t) = [] \<longleftrightarrow> (\<exists>ex. get_translation_db e t = Inl ex)) \<and>
   get_translation_db e t =
     (if path_exists e (db_file t)
      then (case connect e (db_file t) of Inl msg \<Rightarrow> Inl (Sqlite3Error msg) | Inr db \<Rightarrow> Inr db)
      else Inl (HTTPException 404 (''Database file '' @ db_file t @ '' not found'')))"
  by (auto simp: get_books_for_translation_def session_def Let_def get_translation_db_def
      get_db_connection_def split: sum.splits)

section \<open>Passages\<close>

lemma insort_key_same_chapter:
  "\<forall>y \<in> set (x # ys). f y = (c, g y) \<Longrightarrow> insort_key f x ys = insort_key g x ys"
  for f :: "'a \<Rightarrow> int \<times> int"
  by (induction ys) auto

lemma sort_key_same_chapter:
  "\<forall>y \<in> set xs. f y = (c, g y) \<Longrightarrow> sort_key f xs = sort_key g xs"
  for f :: "'a \<Rightarrow> int \<times> int"
proof (induction xs)
  case Nil
  show ?case by simp
next
  case (Cons x xs)
  then have ih: "sort_key f xs = sort_key g xs"
    by simp
  have "\<forall>y \<in> set (x # sort_key g xs). f y = (c, g y)"
    using Cons.prems by simp
  then have "insort_key f x (sort_key g xs) = insort_key g x (sort_key g xs)"
    by (rule insort_key_same_chapter)
  with ih show ?case by simp
qed

text \<open>
  Both statements of the endpoint select the passage of the specification and return it
  sorted by chapter and verse.
\<close>

lemma passage_rows_spec:
  assumes "plan_ok db"
  shows "(if sc = ec then passage_chapter_rows db q table book sc sv ev
          else passage_span_rows db q table book sc sv ec ev) =
         sort_key chapter_verse (deliver db q (filter (in_passage book sc sv ec ev) table))"
proof (cases "sc = ec")
  case True
  let ?sel = "deliver db q (filter (in_passage book sc sv ec ev) table)"
  have "\<forall>y \<in> set ?sel. chapter_verse y = (sc, row_verse y)"
    using True by (simp add: set_deliver [OF assms] in_passage_def chapter_verse_def)
  then have "sort_key chapter_verse ?sel = sort_key row_verse ?sel"
    by (rule sort_key_same_chapter)
  moreover have "in_passage book sc sv ec ev =
                 (\<lambda>r. row_book_id r = book \<and> row_chapter r = sc \<and>
                      sv \<le> row_verse r \<and> row_verse r \<le> ev)"
    using True by (auto simp: in_passage_def fun_eq_iff)
  ultimately show ?thesis
    using True by (simp add: passage_chapter_rows_def)
next
  case False
  have "in_passage book sc sv ec ev =
        (\<lambda>r. row_book_id r = book \<and>
             ((row_chapter r = sc \<and> row_verse r \<ge> sv) \<or>
              (row_chapter r > sc \<and> row_chapter r < ec) \<or>
              (row_chapter r = ec \<and> row_verse r \<le> ev)))"
    using False by (auto simp: in_passage_def fun_eq_iff)
  then show ?thesis
    using False by (simp add: passage_span_rows_def chapter_verse_def[abs_def])
qed

lemma get_passage_rows:
  assumes "get_translation_db e t = Inr db"
    and "verses_tbl db (upper t @ ''_verses'') = Inr table"
    and "plan_ok db"
    and "int64 book" and "int64 sc" and "int64 sv" and "int64 ec" and "int64 ev"
  shows "\<exists>q. snd (get_passage e t book sc sv ec ev) =
           (if filter (in_passage book sc sv ec ev) table = []
            then Inl (HTTPException 404 ''Passage not found'')
            else Inr (map make_Verse
                   (sort_key chapter_verse
                      (deliver db q (filter (in_passage book sc sv ec ev) table)))))"
proof (cases "sc = ec")
  case True
  let ?q = "SelectPassageChapter (upper t @ ''_verses'') book sc sv ev"
  from passage_rows_spec [OF assms(3), of sc ec ?q table book sv ev] True
  have "passage_chapter_rows db ?q table book sc sv ev =
        sort_key chapter_verse (deliver db ?q (filter (in_passage book sc sv ec ev) table))"
    by simp
  with assms True have "snd (get_passage e t book sc sv ec ev) =
           (if filter (in_passage book sc sv ec ev) table = []
            then Inl (HTTPException 404 ''Passage not found'')
            else Inr (map make_Verse
                   (sort_key chapter_verse
                      (deliver db ?q (filter (in_passage book sc sv ec ev) table)))))"
    by (simp add: get_passage_def Let_def sort_key_Nil_iff deliver_Nil_iff)
  then show ?thesis ..
next
  case False
  let ?q = "SelectPassageSpan (upper t @ ''_verses'') book sc sv ec ev"
  from passage_rows_spec [OF assms(3), of sc ec ?q table book sv ev] False
  have "passage_span_rows db ?q table book sc sv ec ev =
        sort_key chapter_verse (deliver db ?q (filter (in_passage book sc sv ec ev) table))"
    by simp
  with assms False have "snd (get_passage e t book sc sv ec ev) =
           (if filter (in_passage book sc sv ec ev) table = []
            then Inl (HTTPException 404 ''Passage not found'')
            else Inr (map make_Verse
                   (sort_key chapter_verse
                      (deliver db ?q (filter (in_passage book sc sv ec ev) table)))))"
    by (simp add: get_passage_def Let_def sort_key_Nil_iff deliver_Nil_iff)
  then show ?thesis ..
qed

text \<open>A bound outside 64 bits ends the request with \<^verbatim>\<open>OverflowError\<close>.\<close>

lemma get_passage_overflow:
  assumes "get_translation_db e t = Inr db"
    and "verses_tbl db (upper t @ ''_verses'') = Inr table"
    and "\<not> int64 book \<or> \<not> int64 sc \<or> \<not> int64 sv \<or> \<not> int64 ec \<or> \<not> int64 ev"
  shows "snd (get_passage e t book sc sv ec ev) = Inl OverflowError"
  using assms by (auto simp: get_passage_def Let_def reraise_def)

text \<open>
  Claim C3. For a translation whose dataset opens and whose verses relation can be read,
  and for a book and bounds that fit in 64 bits, the rows a passage query returns are
  exactly the rows of the relation that lie in the passage of the specification, each as
  often as it is stored, in ascending (chapter, verse) order; the endpoint answers with
  their verses, and it fails with "Passage not found" exactly when no row of the relation
  lies in the passage.
\<close>

theorem C3_passage:
  assumes "get_translation_db e t = Inr db"
    and "verses_tbl db (upper t @ ''_verses'') = Inr table"
    and "plan_ok db"
    and "int64 book" and "int64 sc" and "int64 sv" and "int64 ec" and "int64 ev"
  shows "(\<exists>rows.
            mset rows = mset (filter (in_passage book sc sv ec ev) table) \<and>
            sorted (map chapter_verse rows) \<and>
            snd (get_passage e t book sc sv ec ev) =
              (if rows = [] then Inl (HTTPException 404 ''Passage not found'')
               else Inr (map make_Verse rows))) \<and>
         (snd (get_passage e t book sc sv ec ev) = Inl (HTTPException 404 ''Passage not found'')
            \<longleftrightarrow> {r \<in> set table. in_passage book sc sv ec ev r} = {})"
proof -
  from get_passage_rows [OF assms] obtain q where
    res: "snd (get_passage e t book sc sv ec ev) =
           (if filter (in_passage book sc sv ec ev) table = []
            then Inl (HTTPException 404 ''Passage not found'')
            else Inr (map make_Verse
                   (sort_key chapter_verse
                      (deliver db q (filter (in_passage book sc sv ec ev) table)))))"
    by blast
  let ?rows = "sort_key chapter_verse (deliver db q (filter (in_passage book sc sv ec ev) table))"
  have m: "mset ?rows = mset (filter (in_passage book sc sv ec ev) table)"
    by (simp add: mset_deliver [OF assms(3)])
  have o: "sorted (map chapter_verse ?rows)"
    by simp
  have e: "?rows = [] \<longleftrightarrow> filter (in_passage book sc sv ec ev) table = []"
    by (simp add: sort_key_Nil_iff deliver_Nil_iff [OF assms(3)])
  have r: "snd (get_passage e t book sc sv ec ev) =
              (if ?rows = [] then Inl (HTTPException 404 ''Passage not found'')
               else Inr (map make_Verse ?rows))"
    using res e by simp
  have "filter (in_passage book sc sv ec ev) table = [] \<longleftrightarrow>
        {r \<in> set table. in_passage book sc sv ec ev r} = {}"
    by (auto simp: filter_empty_conv)
  with res have n:
    "snd (get_passage e t book sc sv ec ev) = Inl (HTTPException 404 ''Passage not found'')
       \<longleftrightarrow> {r \<in> set table. in_passage book sc sv ec ev r} = {}"
    by simp
  from m o r n show ?thesis
    by blast
qed

theorem C3_passage_witness:
  "get_translation_db sample_env ''kjv'' = Inr kjv_db \<and>
   verses_tbl kjv_db (upper ''kjv'' @ ''_verses'') = Inr kjv_verses \<and>
   plan_ok kjv_db \<and> int64 1 \<and> int64 2 \<and> int64 31 \<and> int64 7 \<and> int64 8 \<and>
   snd (get_passage sample_env ''kjv'' 1 1 31 2 1) =
     Inr [Verse 31 ''God saw abc'', Verse 1 ''Thus the heavens''] \<and>
   snd (get_passage sample_env ''kjv'' 1 2 1 2 2) =
     Inr [Verse 1 ''Thus the heavens'', Verse 2 ''And on the seventh day''] \<and>
   snd (get_passage sample_env ''kjv'' 1 7 1 8 1) = Inl (HTTPException 404 ''Passage not found'')"
proof -
  have b: "verses_tbl kjv_db (upper ''kjv'' @ ''_verses'') = Inr kjv_verses"
    by (simp add: upper_kjv kjv_verses_tbl)
  have i: "int64 1" "int64 2" "int64 31" "int64 7" "int64 8"
    by (simp_all add: int64_def)
  have "filter (in_passage 1 7 1 8 1) kjv_verses = []"
    by (simp add: kjv_verses_def in_passage_def)
  then have empty: "{r \<in> set kjv_verses. in_passage 1 7 1 8 1 r} = {}"
    by (auto simp: filter_empty_conv)
  from C3_passage [OF sample_kjv b kjv_plan i(1) i(4) i(1) i(5) i(1)] empty
  have nf: "snd (get_passage sample_env ''kjv'' 1 7 1 8 1) =
              Inl (HTTPException 404 ''Passage not found'')"
    by blast
  have span: "snd (get_passage sample_env ''kjv'' 1 1 31 2 1) =
     Inr [Verse 31 ''God saw abc'', Verse 1 ''Thus the heavens'']"
    using i by (simp add: get_passage_def sample_kjv upper_kjv kjv_verses_tbl Let_def
        passage_span_rows_def kjv_deliver kjv_verses_def make_Verse_def)
  have one: "snd (get_passage sample_env ''kjv'' 1 2 1 2 2) =
     Inr [Verse 1 ''Thus the heavens'', Verse 2 ''And on the seventh day'']"
    using i by (simp add: get_passage_def sample_kjv upper_kjv kjv_verses_tbl Let_def
        passage_chapter_rows_def kjv_deliver kjv_verses_def make_Verse_def)
  from sample_kjv b kjv_plan i nf span one show ?thesis
    by blast
qed

section \<open>Chapter counts against the verses of each chapter\<close>

lemma chapter_groups_distinct: "distinct (map fst (chapter_groups table book))"
  by (simp add: chapter_groups_def Let_def comp_def)

lemma chapter_groups_member:
  "(c, n) \<in> set (chapter_groups table book) \<Longrightarrow>
   n = int (length (filter (\<lambda>r. row_book_id r = book \<and> row_chapter r = c) table)) \<and> 0 < n \<and>
   c \<in> row_chapter ` set table"
  by (auto simp: chapter_groups_def Let_def filter_empty_conv)

lemma sum_list_indicator:
  "distinct cs \<Longrightarrow> x \<in> set cs \<Longrightarrow> (\<Sum>c\<leftarrow>cs. if x = c then 1 else 0) = (1::int)"
proof (induction cs)
  case Nil
  then show ?case by simp
next
  case (Cons c cs)
  show ?case
  proof (cases "x = c")
    case True
    with Cons.prems have "x \<notin> set cs"
      by simp
    then have "(\<Sum>c\<leftarrow>cs. if x = c then 1 else 0) = (0::int)"
      by (induction cs) auto
    with True show ?thesis
      by simp
  next
    case False
    with Cons show ?thesis
      by simp
  qed
qed

lemma sum_group_sizes:
  "distinct cs \<Longrightarrow> f ` set rs \<subseteq> set cs \<Longrightarrow>
   (\<Sum>c\<leftarrow>cs. int (length (filter (\<lambda>r. f r = c) rs))) = int (length rs)"
proof (induction rs)
  case Nil
  show ?case by simp
next
  case (Cons r rs)
  have "(\<Sum>c\<leftarrow>cs. int (length (filter (\<lambda>r. f r = c) (r # rs)))) =
        (\<Sum>c\<leftarrow>cs. (if f r = c then 1 else 0) + int (length (filter (\<lambda>r. f r = c) rs)))"
    by (rule arg_cong [where f = sum_list]) simp
  also have "\<dots> = (\<Sum>c\<leftarrow>cs. if f r = c then 1 else 0) +
                    (\<Sum>c\<leftarrow>cs. int (length (filter (\<lambda>r. f r = c) rs)))"
    by (simp add: sum_list_addf)
  also have "\<dots> = 1 + int (length rs)"
    using Cons by (simp add: sum_list_indicator)
  finally show ?case
    by simp
qed

lemma sum_chapter_groups:
  "sum_list (map snd (chapter_groups table book)) =
   int (length (filter (\<lambda>r. row_book_id r = book) table))"
proof -
  let ?sel = "filter (\<lambda>r. row_book_id r = book) table"
  have "sum_list (map snd (chapter_groups table book)) =
        (\<Sum>c\<leftarrow>sort (remdups (map row_chapter ?sel)).
           int (length (filter (\<lambda>r. row_chapter r = c) ?sel)))"
    by (simp add: chapter_groups_def Let_def comp_def)
  also have "\<dots> = int (length ?sel)"
    by (rule sum_group_sizes) simp_all
  finally show ?thesis .
qed

lemma chapter_groups_Nil_iff:
  "chapter_groups table book = [] \<longleftrightarrow> (\<forall>r \<in> set table. row_book_id r \<noteq> book)"
  by (auto simp: chapter_groups_def Let_def filter_empty_conv sort_key_Nil_iff)

lemma length_chapter_rows:
  "plan_ok db \<Longrightarrow>
   length (chapter_rows db q table book c) =
     length (filter (\<lambda>r. row_book_id r = book \<and> row_chapter r = c) table)"
  by (simp add: chapter_rows_def length_deliver)

text \<open>A chapter outside 64 bits ends the verses request with \<^verbatim>\<open>OverflowError\<close>.\<close>

lemma get_verses_in_chapter_overflow:
  assumes "get_translation_db e t = Inr db"
    and "verses_tbl db (upper t @ ''_verses'') = Inr table"
    and "\<not> int64 book \<or> \<not> int64 c"
  shows "snd (get_verses_in_chapter e t book c) = Inl OverflowError"
  using assms
  by (auto simp: get_verses_in_chapter_def exec_chapter_verses_def Let_def reraise_def)

text \<open>
  Claim C6. Take a translation whose verses relation can be read and holds chapter numbers
  of 64 bits, as the engine stores them, and a book with at least one verse. Then
  \<^verbatim>\<open>get_chapter_counts\<close> answers, and every chapter it lists is a chapter for which
  \<^verbatim>\<open>get_verses_in_chapter\<close> succeeds with as many verses as the count says. So the
  counts add up to the number of verses returned over the listed chapters, which is the
  number of verses of the book. Every chapter is listed once, and a chapter of 64 bits
  that is not listed has no verses (the verses endpoint answers 404 for it).
\<close>

theorem C6_chapter_counts_sum:
  assumes "get_translation_db e t = Inr db"
    and "verses_tbl db (upper t @ ''_verses'') = Inr table"
    and "plan_ok db"
    and "int64 book"
    and "\<exists>r \<in> set table. row_book_id r = book"
    and "\<forall>r \<in> set table. int64 (row_chapter r)"
  shows "\<exists>counts.
           snd (get_chapter_counts e t book) = Inr counts \<and>
           (\<forall>(c, n) \<in> set counts.
              \<exists>verses. snd (get_verses_in_chapter e t book c) = Inr verses \<and>
                       int (length verses) = n) \<and>
           sum_list (map snd counts) = (\<Sum>(c, n)\<leftarrow>counts. verse_count e t book c) \<and>
           sum_list (map snd counts) = int (length (filter (\<lambda>r. row_book_id r = book) table)) \<and>
           distinct (map fst counts) \<and>
           (\<forall>c. int64 c \<and> c \<notin> fst ` set counts \<longrightarrow>
              snd (get_verses_in_chapter e t book c) =
                Inl (HTTPException 404 ''No verses found for given chapter''))"
proof -
  let ?counts = "chapter_groups table book"
  have ne: "?counts \<noteq> []"
    using assms(5) by (simp add: chapter_groups_Nil_iff)
  have res: "snd (get_chapter_counts e t book) = Inr ?counts"
    using assms(1,2,4) ne
    by (simp add: get_chapter_counts_def exec_chapter_counts_def Let_def)
  have verses: "snd (get_verses_in_chapter e t book c) =
      (if filter (\<lambda>r. row_book_id r = book \<and> row_chapter r = c) table = []
       then Inl (HTTPException 404 ''No verses found for given chapter'')
       else Inr (map make_Verse
              (chapter_rows db (SelectChapterVerses (upper t @ ''_verses'') book c)
                 table book c)))" if "int64 c" for c
    using assms(1,2,4) that length_chapter_rows [OF assms(3),
        of "SelectChapterVerses (upper t @ ''_verses'') book c" table book c]
    by (auto simp: get_verses_in_chapter_def exec_chapter_verses_def Let_def)
  have each: "\<exists>verses. snd (get_verses_in_chapter e t book c) = Inr verses \<and>
                     int (length verses) = n" if "(c, n) \<in> set ?counts" for c n
  proof -
    from chapter_groups_member [OF that] have
      n: "n = int (length (filter (\<lambda>r. row_book_id r = book \<and> row_chapter r = c) table))"
      and pos: "0 < n" and c: "c \<in> row_chapter ` set table"
      by blast+
    from c assms(6) have "int64 c"
      by auto
    have ne: "filter (\<lambda>r. row_book_id r = book \<and> row_chapter r = c) table \<noteq> []"
    proof
      assume "filter (\<lambda>r. row_book_id r = book \<and> row_chapter r = c) table = []"
      with n pos show False
        by simp
    qed
    from verses [OF \<open>int64 c\<close>] ne n show ?thesis
      by (simp add: length_chapter_rows [OF assms(3)])
  qed
  then have a: "\<forall>(c, n) \<in> set ?counts.
            \<exists>verses. snd (get_verses_in_chapter e t book c) = Inr verses \<and>
                     int (length verses) = n"
    by blast
  have "map snd ?counts = map (\<lambda>(c, n). verse_count e t book c) ?counts"
  proof (rule map_cong [OF refl])
    fix p
    assume m: "p \<in> set ?counts"
    obtain c n where p: "p = (c, n)"
      by (cases p)
    with m have "(c, n) \<in> set ?counts"
      by simp
    with p each [of c n] show "snd p = (case p of (c, n) \<Rightarrow> verse_count e t book c)"
      by (auto simp: verse_count_def)
  qed
  then have b: "sum_list (map snd ?counts) = (\<Sum>(c, n)\<leftarrow>?counts. verse_count e t book c)"
    by (simp only:)
  have c: "distinct (map fst ?counts)"
    by (rule chapter_groups_distinct)
  have d: "\<forall>c. int64 c \<and> c \<notin> fst ` set ?counts \<longrightarrow>
            snd (get_verses_in_chapter e t book c) =
              Inl (HTTPException 404 ''No verses found for given chapter'')"
  proof (intro allI impI, elim conjE)
    fix c
    assume i: "int64 c" and "c \<notin> fst ` set ?counts"
    then have "filter (\<lambda>r. row_book_id r = book \<and> row_chapter r = c) table = []"
      by (force simp: chapter_groups_def Let_def filter_empty_conv image_iff)
    with verses [OF i] show "snd (get_verses_in_chapter e t book c) =
              Inl (HTTPException 404 ''No verses found for given chapter'')"
      by simp
  qed
  from res a b c d sum_chapter_groups [of table book] show ?thesis
    by blast
qed

theorem C6_chapter_counts_sum_witness:
  "get_translation_db sample_env ''kjv'' = Inr kjv_db \<and>
   verses_tbl kjv_db (upper ''kjv'' @ ''_verses'') = Inr kjv_verses \<and>
   plan_ok kjv_db \<and> int64 1 \<and>
   list_ex (\<lambda>r. row_book_id r = 1) kjv_verses \<and>
   list_all (\<lambda>r. int64 (row_chapter r)) kjv_verses \<and>
   snd (get_chapter_counts sample_env ''kjv'' 1) = Inr [(1, 2), (2, 2), (3, 1)] \<and>
   (\<Sum>(c, n)\<leftarrow>[(1, 2), (2, 2), (3, 1)]. verse_count sample_env ''kjv'' 1 c) = 5 \<and>
   int64 4 \<and>
   snd (get_verses_in_chapter sample_env ''kjv'' 1 4) =
     Inl (HTTPException 404 ''No verses found for given chapter'')"
proof -
  have b: "verses_tbl kjv_db (upper ''kjv'' @ ''_verses'') = Inr kjv_verses"
    by (simp add: upper_kjv kjv_verses_tbl)
  have i: "int64 1" "int64 4"
    by (simp_all add: int64_def)
  have c: "\<exists>r \<in> set kjv_verses. row_book_id r = 1"
    by (simp add: kjv_verses_def)
  have d: "\<forall>r \<in> set kjv_verses. int64 (row_chapter r)"
    by (simp add: kjv_verses_def int64_def)
  have h: "snd (get_chapter_counts sample_env ''kjv'' 1) = Inr [(1, 2), (2, 2), (3, 1)]"
    using b i
    by (simp add: get_chapter_counts_def sample_kjv exec_chapter_counts_def chapter_groups_def
        Let_def kjv_verses_def)
  from C6_chapter_counts_sum [OF sample_kjv b kjv_plan i(1) c d] sample_kjv b kjv_plan i c d h
  show ?thesis
    by (auto simp: list_ex_iff list_all_iff)
qed

section \<open>Cross references\<close>

text \<open>
  Claim C7, as stated, fails in its tie order: the statement sorts by votes only. On the
  shared dataset with an index on the votes, the two references with 5 votes, stored as
  the first and the fourth row, are returned in the opposite order.
\<close>

theorem C7_tie_order_counterexample:
  "cross_reference_matches shared_xrefs 1 1 1 =
     [shared_xrefs ! 0, shared_xrefs ! 1, shared_xrefs ! 3] \<and>
   votes (shared_xrefs ! 0) = votes (shared_xrefs ! 3) \<and>
   shared_xrefs ! 0 \<noteq> shared_xrefs ! 3 \<and>
   snd (get_cross_references indexed_env ''kjv'' 1 1 1) =
     Inr [shared_xrefs ! 1, shared_xrefs ! 3, shared_xrefs ! 0]"
proof -
  have s: "str_int 1 = ''1''"
    by (simp add: str_int_def str_nat.simps char_of_def bit_0)
  have a: "get_db_connection indexed_env GLOBAL_DB_FILE = Inr indexed_shared_db"
    by (simp add: get_db_connection_def GLOBAL_DB_FILE_text indexed_env_def sample_env_def)
  have t: "cross_references_tbl indexed_shared_db = Inr shared_xrefs"
    by (simp add: indexed_shared_db_def shared_db_def)
  have i: "int64 1"
    by (simp add: int64_def)
  have m: "cross_reference_matches shared_xrefs 1 1 1 =
     [shared_xrefs ! 0, shared_xrefs ! 1, shared_xrefs ! 3]"
    by (simp add: cross_reference_matches_def s shared_xrefs_def)
  have r: "snd (get_cross_references indexed_env ''kjv'' 1 1 1) =
     Inr [shared_xrefs ! 1, shared_xrefs ! 3, shared_xrefs ! 0]"
    using i
    by (simp add: get_cross_references_def a t s Let_def cross_reference_rows_def
        indexed_deliver shared_xrefs_def)
  have v: "votes (shared_xrefs ! 0) = votes (shared_xrefs ! 3)"
    "shared_xrefs ! 0 \<noteq> shared_xrefs ! 3"
    by (simp_all add: shared_xrefs_def)
  from m v r show ?thesis
    by blast
qed

text \<open>A chapter or verse outside 64 bits ends the request with \<^verbatim>\<open>OverflowError\<close>.\<close>

lemma get_cross_references_overflow:
  assumes "get_db_connection e GLOBAL_DB_FILE = Inr db"
    and "cross_references_tbl db = Inr table"
    and "\<not> int64 ch \<or> \<not> int64 verse"
  shows "snd (get_cross_references e t book_id ch verse) = Inl OverflowError"
  using assms by (auto simp: get_cross_references_def Let_def reraise_def)

text \<open>
  Claim C7, amended. The endpoint opens the shared dataset \<^verbatim>\<open>translations.db\<close> and
  nothing else, and its outcome does not depend on the translation of the route. When the
  shared dataset opens, its cross-reference relation can be read and chapter and verse
  fit in 64 bits, the answer holds exactly the rows that start at the coordinate (the
  book given as the decimal text of the book id), each as often as it is stored, by
  votes descending; the order among rows of equal votes is the engine's, as the statement
  names no further key. The answer is the 404 "No cross references found" exactly when no
  row starts at the coordinate.
\<close>

theorem C7_cross_references:
  assumes "get_db_connection e GLOBAL_DB_FILE = Inr db"
    and "cross_references_tbl db = Inr table"
    and "plan_ok db"
    and "int64 ch" and "int64 verse"
  shows "fst (get_cross_references e t book_id ch verse) =
           [Connect GLOBAL_DB_FILE,
            Execute (SelectCrossReferences (str_int book_id) ch verse),
            Close GLOBAL_DB_FILE] \<and>
         get_cross_references e t book_id ch verse = get_cross_references e t' book_id ch verse \<and>
         (\<exists>rows.
            snd (get_cross_references e t book_id ch verse) =
              (if rows = [] then Inl (HTTPException 404 ''No cross references found'')
               else Inr rows) \<and>
            mset rows = mset (cross_reference_matches table book_id ch verse) \<and>
            sorted_wrt (\<lambda>a b. votes a \<ge> votes b) rows) \<and>
         (snd (get_cross_references e t book_id ch verse) =
            Inl (HTTPException 404 ''No cross references found'') \<longleftrightarrow>
          cross_reference_matches table book_id ch verse = [])"
proof -
  let ?m = "cross_reference_matches table book_id ch verse"
  let ?q = "SelectCrossReferences (str_int book_id) ch verse"
  let ?rows = "sort_key (\<lambda>r. - votes r) (deliver db ?q ?m)"
  have tr: "fst (get_cross_references e t book_id ch verse) =
           [Connect GLOBAL_DB_FILE, Execute ?q, Close GLOBAL_DB_FILE]"
    using assms by (simp add: get_cross_references_def Let_def session_def)
  have indep: "get_cross_references e t book_id ch verse = get_cross_references e t' book_id ch verse"
    by (simp add: get_cross_references_def)
  have res: "snd (get_cross_references e t book_id ch verse) =
              (if ?rows = [] then Inl (HTTPException 404 ''No cross references found'')
               else Inr ?rows)"
    using assms
    by (simp add: get_cross_references_def Let_def cross_reference_rows_def
        cross_reference_matches_def)
  have "sorted (map (\<lambda>r. - votes r) ?rows)"
    by simp
  then have ord: "sorted_wrt (\<lambda>a b. votes a \<ge> votes b) ?rows"
    by (simp add: sorted_map)
  have m: "mset ?rows = mset ?m"
    by (simp add: mset_deliver [OF assms(3)])
  have nf: "snd (get_cross_references e t book_id ch verse) =
            Inl (HTTPException 404 ''No cross references found'') \<longleftrightarrow> ?m = []"
    using res by (simp add: sort_key_Nil_iff deliver_Nil_iff [OF assms(3)])
  from res ord m have "\<exists>rows.
            snd (get_cross_references e t book_id ch verse) =
              (if rows = [] then Inl (HTTPException 404 ''No cross references found'')
               else Inr rows) \<and>
            mset rows = mset ?m \<and>
            sorted_wrt (\<lambda>a b. votes a \<ge> votes b) rows"
    by blast
  with tr indep nf show ?thesis
    by blast
qed

theorem C7_cross_references_witness:
  "get_db_connection sample_env GLOBAL_DB_FILE = Inr shared_db \<and>
   cross_references_tbl shared_db = Inr shared_xrefs \<and> plan_ok shared_db \<and>
   int64 1 \<and> int64 3 \<and>
   fst (get_cross_references sample_env ''kjv'' 1 1 1) =
     [Connect ''bible_databases/formats/sqlite/translations.db'',
      Execute (SelectCrossReferences ''1'' 1 1),
      Close ''bible_databases/formats/sqlite/translations.db''] \<and>
   snd (get_cross_references sample_env ''kjv'' 1 1 1) =
     Inr [shared_xrefs ! 1, shared_xrefs ! 0, shared_xrefs ! 3] \<and>
   snd (get_cross_references sample_env ''kjv'' 1 1 3) =
     Inl (HTTPException 404 ''No cross references found'')"
proof -
  have a: "get_db_connection sample_env GLOBAL_DB_FILE = Inr shared_db"
    by (simp add: get_db_connection_def GLOBAL_DB_FILE_text sample_env_def)
  have b: "cross_references_tbl shared_db = Inr shared_xrefs"
    by (simp add: shared_db_def)
  have i: "int64 1" "int64 3"
    by (simp_all add: int64_def)
  have s: "str_int 1 = ''1''"
    by (simp add: str_int_def str_nat.simps char_of_def bit_0)
  have rows: "snd (get_cross_references sample_env ''kjv'' 1 1 1) =
     Inr [shared_xrefs ! 1, shared_xrefs ! 0, shared_xrefs ! 3]"
    using i
    by (simp add: get_cross_references_def a b s Let_def cross_reference_rows_def
        shared_deliver shared_xrefs_def)
  have none: "cross_reference_matches shared_xrefs 1 1 3 = []"
    by (simp add: cross_reference_matches_def shared_xrefs_def)
  from C7_cross_references [OF a b shared_plan i(1) i(1), of "''kjv''" 1]
  have tr: "fst (get_cross_references sample_env ''kjv'' 1 1 1) =
     [Connect ''bible_databases/formats/sqlite/translations.db'',
      Execute (SelectCrossReferences ''1'' 1 1),
      Close ''bible_databases/formats/sqlite/translations.db'']"
    by (simp add: s GLOBAL_DB_FILE_text)
  from C7_cross_references [OF a b shared_plan i(1) i(2), of "''kjv''" 1] none
  have nf: "snd (get_cross_references sample_env ''kjv'' 1 1 3) =
     Inl (HTTPException 404 ''No cross references found'')"
    by blast
  from a b shared_plan i tr rows nf show ?thesis
    by blast
qed

section \<open>Listing the translations\<close>

lemma scan_file_entry: "fst (scan_file e filename conn) = catalog_entry e filename"
proof (cases "get_db_connection e (path_join BASE_DB_PATH filename)")
  case (Inl ex)
  then show ?thesis
    by (simp add: scan_file_def catalog_entry_def Let_def)
next
  case (Inr db)
  show ?thesis
  proof (cases "translations_tbl db")
    case (Inl msg)
    with Inr show ?thesis
      by (simp add: scan_file_def catalog_entry_def exec_catalog_def Let_def)
  next
    case rows: (Inr rows)
    show ?thesis
    proof (cases "deliver db SelectCatalog rows")
      case Nil
      with Inr rows show ?thesis
        by (simp add: scan_file_def catalog_entry_def exec_catalog_def fetchone_def Let_def)
    next
      case (Cons row more_rows)
      with Inr rows show ?thesis
        by (simp add: scan_file_def catalog_entry_def exec_catalog_def fetchone_def Let_def
            split: option.splits)
    qed
  qed
qed

lemma scan_file_print:
  "scan_raises e filename \<Longrightarrow> \<exists>ex. Print filename ex \<in> set (snd (snd (scan_file e filename conn)))"
proof (cases "get_db_connection e (path_join BASE_DB_PATH filename)")
  case (Inl ex)
  then show ?thesis
    by (auto simp: scan_file_def Let_def)
next
  case (Inr db)
  assume r: "scan_raises e filename"
  show ?thesis
  proof (cases "translations_tbl db")
    case (Inl msg)
    with Inr show ?thesis
      by (auto simp: scan_file_def exec_catalog_def Let_def)
  next
    case rows: (Inr rows)
    show ?thesis
    proof (cases "deliver db SelectCatalog rows")
      case Nil
      with Inr rows r show ?thesis
        by (simp add: scan_raises_def)
    next
      case (Cons row more_rows)
      with Inr rows r show ?thesis
        by (auto simp: scan_file_def scan_raises_def exec_catalog_def fetchone_def Let_def)
    qed
  qed
qed

lemma scan_file_execute:
  "length (filter (\<lambda>ev. ev = Execute SelectCatalog) (snd (snd (scan_file e filename conn)))) =
     (if opens e filename then 1 else 0)"
  by (auto simp: scan_file_def opens_def Let_def session_def
      split: sum.splits list.splits option.splits)

lemma scan_loop_entries:
  "fst (scan_loop e fs acc conn tr) = acc @ List.map_filter (catalog_entry e) (datasets fs)"
proof (induction fs arbitrary: acc conn tr)
  case Nil
  show ?case by (simp add: datasets_def)
next
  case (Cons f fs)
  show ?case
  proof (cases "endswith f ''.db''")
    case True
    obtain r conn' evs where sf: "scan_file e f conn = (r, conn', evs)"
      by (cases "scan_file e f conn")
    then have "r = catalog_entry e f"
      using scan_file_entry [of e f conn] by simp
    with True sf Cons.IH show ?thesis
      by (simp add: datasets_def split: option.splits)
  next
    case False
    with Cons.IH show ?thesis by (simp add: datasets_def)
  qed
qed

lemma scan_loop_trace_grows: "set tr \<subseteq> set (snd (scan_loop e fs acc conn tr))"
proof (induction fs arbitrary: acc conn tr)
  case Nil
  show ?case by simp
next
  case (Cons f fs)
  show ?case
  proof (cases "endswith f ''.db''")
    case True
    obtain r conn' evs where sf: "scan_file e f conn = (r, conn', evs)"
      by (cases "scan_file e f conn")
    have "set (tr @ evs) \<subseteq>
          set (snd (scan_loop e fs (acc @ (case r of None \<Rightarrow> [] | Some t \<Rightarrow> [t])) conn' (tr @ evs)))"
      by (rule Cons.IH)
    with True sf show ?thesis by auto
  next
    case False
    with Cons.IH show ?thesis by simp
  qed
qed

lemma scan_loop_prints:
  "f \<in> set fs \<Longrightarrow> endswith f ''.db'' \<Longrightarrow> scan_raises e f \<Longrightarrow>
   \<exists>ex. Print f ex \<in> set (snd (scan_loop e fs acc conn tr))"
proof (induction fs arbitrary: acc conn tr)
  case Nil
  then show ?case by simp
next
  case (Cons g fs)
  show ?case
  proof (cases "endswith g ''.db''")
    case True
    obtain r conn' evs where sf: "scan_file e g conn = (r, conn', evs)"
      by (cases "scan_file e g conn")
    let ?rest = "scan_loop e fs (acc @ (case r of None \<Rightarrow> [] | Some t \<Rightarrow> [t])) conn' (tr @ evs)"
    have step: "scan_loop e (g # fs) acc conn tr = ?rest"
      using True sf by simp
    show ?thesis
    proof (cases "f = g")
      case True
      with Cons.prems scan_file_print [of e g conn] sf obtain ex where "Print f ex \<in> set evs"
        by auto
      then have "Print f ex \<in> set (tr @ evs)" by simp
      with scan_loop_trace_grows [of "tr @ evs" e fs] have "Print f ex \<in> set (snd ?rest)"
        by blast
      with step show ?thesis by auto
    next
      case False
      with Cons.prems have "f \<in> set fs" by simp
      from Cons.IH [OF this Cons.prems(2,3)] step show ?thesis by simp
    qed
  next
    case False
    with Cons.prems have "f \<in> set fs" by auto
    from Cons.IH [OF this Cons.prems(2,3)] False show ?thesis by simp
  qed
qed

lemma scan_loop_executes:
  "length (filter (\<lambda>ev. ev = Execute SelectCatalog) (snd (scan_loop e fs acc conn tr))) =
   length (filter (\<lambda>ev. ev = Execute SelectCatalog) tr) +
   length (filter (opens e) (datasets fs))"
proof (induction fs arbitrary: acc conn tr)
  case Nil
  show ?case by (simp add: datasets_def)
next
  case (Cons f fs)
  show ?case
  proof (cases "endswith f ''.db''")
    case True
    obtain r conn' evs where sf: "scan_file e f conn = (r, conn', evs)"
      by (cases "scan_file e f conn")
    with scan_file_execute [of e f conn]
    have "length (filter (\<lambda>ev. ev = Execute SelectCatalog) evs) = (if opens e f then 1 else 0)"
      by simp
    with True sf Cons.IH show ?thesis by (simp add: datasets_def)
  next
    case False
    with Cons.IH show ?thesis by (simp add: datasets_def)
  qed
qed

text \<open>
  When the base directory cannot be listed the endpoint ends with the \<^verbatim>\<open>OSError\<close> of
  \<^verbatim>\<open>os.listdir\<close>, before any dataset is opened.
\<close>

lemma get_all_translations_unlisted:
  "listdir e = None \<Longrightarrow> get_all_translations e = ([], Inl OSError)"
  by (simp add: get_all_translations_def)

text \<open>
  Claim C5. When the base directory can be listed, \<^verbatim>\<open>get_all_translations\<close> returns
  the entries of the scan over every listed dataset, one catalog statement per dataset
  that opens and at most one entry from each; a dataset whose pass raises is reported
  with \<^verbatim>\<open>print\<close> and the scan goes on; the endpoint fails with "No translations found"
  exactly when the scan has no entry.
\<close>

theorem C5_list_translations:
  assumes "listdir e = Some filenames"
  shows "snd (get_all_translations e) =
           (if scan_entries e filenames = []
            then Inl (HTTPException 404 ''No translations found'')
            else Inr (scan_entries e filenames)) \<and>
         (snd (get_all_translations e) = Inl (HTTPException 404 ''No translations found'') \<longleftrightarrow>
            scan_entries e filenames = []) \<and>
         length (filter (\<lambda>ev. ev = Execute SelectCatalog) (fst (get_all_translations e))) =
           length (filter (opens e) (datasets filenames)) \<and>
         (\<forall>filename \<in> set (datasets filenames).
            scan_raises e filename \<longrightarrow>
              (\<exists>ex. Print filename ex \<in> set (fst (get_all_translations e))))"
proof -
  obtain translations_list tr where
    loop: "scan_loop e filenames [] None [] = (translations_list, tr)"
    by (cases "scan_loop e filenames [] None []")
  have l: "translations_list = scan_entries e filenames"
    using scan_loop_entries [of e filenames "[]" None "[]"] loop
    by (simp add: scan_entries_def)
  have a: "snd (get_all_translations e) =
     (if scan_entries e filenames = [] then Inl (HTTPException 404 ''No translations found'')
      else Inr (scan_entries e filenames))"
    by (simp add: get_all_translations_def assms loop l)
  then have b: "snd (get_all_translations e) = Inl (HTTPException 404 ''No translations found'') \<longleftrightarrow>
      scan_entries e filenames = []"
    by simp
  have t: "fst (get_all_translations e) = tr"
    by (simp add: get_all_translations_def assms loop)
  have c: "length (filter (\<lambda>ev. ev = Execute SelectCatalog) (fst (get_all_translations e))) =
     length (filter (opens e) (datasets filenames))"
    using scan_loop_executes [of e filenames "[]" None "[]"] loop
    by (simp add: t)
  have d: "\<forall>filename \<in> set (datasets filenames).
      scan_raises e filename \<longrightarrow>
        (\<exists>ex. Print filename ex \<in> set (fst (get_all_translations e)))"
  proof (intro ballI impI)
    fix filename
    assume "filename \<in> set (datasets filenames)" and r: "scan_raises e filename"
    then have "filename \<in> set filenames" and "endswith filename ''.db''"
      by (simp_all add: datasets_def)
    from scan_loop_prints [OF this r, of "[]" None "[]"] loop
    show "\<exists>ex. Print filename ex \<in> set (fst (get_all_translations e))"
      by (simp add: t)
  qed
  from a b c d show ?thesis by blast
qed

theorem C5_list_translations_witness:
  "listdir sample_env =
     Some [''KJV.db'', ''notes.txt'', ''A-B.db'', ''ASV.db'', ''translations.db'', ''GONE.db''] \<and>
   datasets [''KJV.db'', ''notes.txt'', ''A-B.db'', ''ASV.db'', ''translations.db'', ''GONE.db''] =
     [''KJV.db'', ''A-B.db'', ''ASV.db'', ''translations.db'', ''GONE.db''] \<and>
   scan_raises sample_env ''ASV.db'' \<and>
   (\<exists>ex. Print ''ASV.db'' ex \<in> set (fst (get_all_translations sample_env))) \<and>
   snd (get_all_translations sample_env) =
     Inr [Translation ''KJV'' ''King James Version'' (Some ''Public Domain'')] \<and>
   length (filter (\<lambda>ev. ev = Execute SelectCatalog) (fst (get_all_translations sample_env))) = 4 \<and>
   listdir (sample_env\<lparr>listdir := Some [''notes.txt'', ''GONE.db'']\<rparr>) =
     Some [''notes.txt'', ''GONE.db''] \<and>
   snd (get_all_translations (sample_env\<lparr>listdir := Some [''notes.txt'', ''GONE.db'']\<rparr>)) =
     Inl (HTTPException 404 ''No translations found'')"
proof -
  let ?names = "[''KJV.db'', ''notes.txt'', ''A-B.db'', ''ASV.db'', ''translations.db'', ''GONE.db'']"
  let ?few = "sample_env\<lparr>listdir := Some [''notes.txt'', ''GONE.db'']\<rparr>"
  have ls: "listdir sample_env = Some ?names"
    by (simp add: sample_env_def)
  have ls': "listdir ?few = Some [''notes.txt'', ''GONE.db'']"
    by simp
  have ds: "datasets ?names = [''KJV.db'', ''A-B.db'', ''ASV.db'', ''translations.db'', ''GONE.db'']"
    by (simp add: datasets_def endswith_def)
  have conn: "get_db_connection sample_env (path_join BASE_DB_PATH ''KJV.db'') = Inr kjv_db"
    "get_db_connection sample_env (path_join BASE_DB_PATH ''A-B.db'') = Inr hyphen_db"
    "get_db_connection sample_env (path_join BASE_DB_PATH ''ASV.db'') = Inr asv_db"
    "get_db_connection sample_env (path_join BASE_DB_PATH ''translations.db'') = Inr shared_db"
    "get_db_connection sample_env (path_join BASE_DB_PATH ''GONE.db'') =
       Inl (HTTPException 404 ''Database file bible_databases/formats/sqlite/GONE.db not found'')"
    by (simp_all add: get_db_connection_def BASE_DB_PATH_text path_join_def sample_env_def)
  have cat: "translations_tbl kjv_db =
               Inr [\<lparr>row_translation = Some ''KJV'', row_title = Some ''King James Version'',
                      row_license = Some ''Public Domain''\<rparr>]"
    "translations_tbl asv_db =
       Inr [\<lparr>row_translation = Some ''ASV'', row_title = None, row_license = None\<rparr>]"
    "translations_tbl shared_db = Inr []"
    "translations_tbl hyphen_db = Inl ''no such table: translations''"
    by (simp_all add: kjv_db_def asv_db_def shared_db_def hyphen_db_def no_table_def)
  have r: "scan_raises sample_env ''ASV.db''"
    by (simp add: scan_raises_def conn cat asv_deliver make_Translation_def)
  have k: "catalog_entry sample_env ''KJV.db'' =
             Some (Translation ''KJV'' ''King James Version'' (Some ''Public Domain''))"
    and "catalog_entry sample_env ''A-B.db'' = None"
    and "catalog_entry sample_env ''ASV.db'' = None"
    and "catalog_entry sample_env ''translations.db'' = None"
    and g: "catalog_entry sample_env ''GONE.db'' = None"
    by (simp_all add: catalog_entry_def conn cat kjv_deliver asv_deliver shared_deliver
        make_Translation_def)
  then have es: "scan_entries sample_env ?names =
                   [Translation ''KJV'' ''King James Version'' (Some ''Public Domain'')]"
    by (simp add: scan_entries_def ds)
  have op: "filter (opens sample_env)
              [''KJV.db'', ''A-B.db'', ''ASV.db'', ''translations.db'', ''GONE.db''] =
            [''KJV.db'', ''A-B.db'', ''ASV.db'', ''translations.db'']"
    by (simp add: opens_def conn)
  have "datasets [''notes.txt'', ''GONE.db''] = [''GONE.db'']"
    by (simp add: datasets_def endswith_def)
  moreover have "catalog_entry ?few ''GONE.db'' = None"
    by (simp add: catalog_entry_def get_db_connection_def BASE_DB_PATH_text path_join_def
        sample_env_def)
  ultimately have es': "scan_entries ?few [''notes.txt'', ''GONE.db''] = []"
    by (simp add: scan_entries_def)
  note full = C5_list_translations [OF ls]
  note few = C5_list_translations [OF ls']
  from full ds r have p: "\<exists>ex. Print ''ASV.db'' ex \<in> set (fst (get_all_translations sample_env))"
    by simp
  from full es have v: "snd (get_all_translations sample_env) =
     Inr [Translation ''KJV'' ''King James Version'' (Some ''Public Domain'')]"
    by simp
  from full ds op have n: "length (filter (\<lambda>ev. ev = Execute SelectCatalog)
      (fst (get_all_translations sample_env))) = 4"
    by simp
  from few es' have f: "snd (get_all_translations ?few) =
     Inl (HTTPException 404 ''No translations found'')"
    by simp
  from ls ls' ds r p v n f show ?thesis
    by blast
qed

section \<open>Searching\<close>

text \<open>
  What holds of every search: at most 100 rows, in ascending (chapter, verse) order, each
  a row of the relation that matches the pattern and lies in the book when one is given.
  For a search text without pattern characters, matching the pattern is containing the
  text, ASCII letters compared without regard to case.
\<close>

lemma like_percent_all: "like_match ''%'' t"
  by (induction t) simp_all

lemma like_literal_prefix:
  "literal_query q \<Longrightarrow> like_match (q @ ''%'') t \<longleftrightarrow> prefix (upper q) (upper t)"
proof (induction q arbitrary: t)
  case Nil
  show ?case by (simp add: like_percent_all upper_def)
next
  case (Cons c q)
  then have lit: "literal_query q" and c: "c \<noteq> CHR ''%''" "c \<noteq> CHR ''_''"
    by (auto simp: literal_query_def)
  show ?case
  proof (cases t)
    case Nil
    with c show ?thesis by (simp add: upper_def)
  next
    case (Cons x xs)
    with c Cons.IH [OF lit, of xs] show ?thesis
      by (auto simp: upper_def)
  qed
qed

lemma like_contains:
  "literal_query q \<Longrightarrow> like_match (''%'' @ q @ ''%'') t \<longleftrightarrow> sublist (upper q) (upper t)"
proof (induction t)
  case Nil
  with like_literal_prefix [of q "[]"] show ?case
    by (simp add: upper_def)
next
  case (Cons x xs)
  with like_literal_prefix [of q "x # xs"] show ?case
    by (simp add: upper_def sublist_Cons_right)
qed

lemma search_rows_facts:
  assumes "plan_ok db"
  shows "length (search_rows db q table query book) \<le> 100 \<and>
         sorted (map chapter_verse (search_rows db q table query book)) \<and>
         (\<forall>r \<in> set (search_rows db q table query book).
            r \<in> set table \<and> like_match (''%'' @ query @ ''%'') (row_text r) \<and>
            (case book of None \<Rightarrow> True | Some b \<Rightarrow> row_book_id r = b))"
proof -
  let ?hits = "filter (\<lambda>r. like_match (''%'' @ query @ ''%'') (row_text r) \<and>
                         (case book of None \<Rightarrow> True | Some b \<Rightarrow> row_book_id r = b)) table"
  let ?sorted = "sort_key (\<lambda>r. (row_chapter r, row_verse r)) (deliver db q ?hits)"
  have rows: "search_rows db q table query book = take 100 ?sorted"
    by (simp add: search_rows_def)
  have "sorted (map chapter_verse ?sorted)"
    by (simp add: chapter_verse_def[abs_def])
  then have "sorted (take 100 (map chapter_verse ?sorted))"
    by (rule sorted_wrt_take)
  then have o: "sorted (map chapter_verse (search_rows db q table query book))"
    by (simp add: rows take_map)
  have "set (search_rows db q table query book) \<subseteq> set ?sorted"
    unfolding rows by (rule set_take_subset)
  then have m: "set (search_rows db q table query book) \<subseteq> set ?hits"
    by (simp add: set_deliver [OF assms])
  from o m show ?thesis
    by (auto simp: rows)
qed

lemma search_verses_no_match:
  "get_translation_db e t = Inr db \<Longrightarrow> verses_tbl db (upper t @ ''_verses'') = Inr table \<Longrightarrow>
   (case book of None \<Rightarrow> True | Some b \<Rightarrow> int64 b) \<Longrightarrow>
   snd (search_verses e t query book) =
     Inr (map make_Verse
            (search_rows db (SelectSearch (upper t @ ''_verses'') query book) table query book))"
  by (simp add: search_verses_def exec_search_def Let_def split: option.splits)

text \<open>
  Claim C4 says that the text of every row a search returns contains the search text.
  The code does not meet it: the search text goes into the pattern unescaped, so
  \<^verbatim>\<open>_\<close> and \<^verbatim>\<open>%\<close> in it act as wildcards. The search for \<^verbatim>\<open>a_c\<close> returns the
  verse "God saw abc", whose text does not contain \<^verbatim>\<open>a_c\<close> in any letter case.
\<close>

theorem C4_search_wildcard_defect:
  "snd (search_verses sample_env ''kjv'' ''a_c'' None) = Inr [Verse 31 ''God saw abc''] \<and>
   \<not> sublist (upper ''a_c'') (upper ''God saw abc'')"
  by (simp add: search_verses_def sample_kjv upper_kjv kjv_verses_tbl exec_search_def
      search_rows_def kjv_deliver kjv_verses_def make_Verse_def Let_def
      upper_def upper_char_def char_of_def bit_0 sublist_Cons_right)

section \<open>The annotation store\<close>

lemma foldl_serve_annotations:
  "ANNOTATIONS (foldl serve s reqs) = ANNOTATIONS s @ responses s reqs"
proof (induction reqs arbitrary: s)
  case Nil
  show ?case by simp
next
  case (Cons r reqs)
  show ?case
  proof (cases r)
    case (AddAnnotation t b c v n)
    with Cons.IH [of "snd (add_annotation s t b c v n)"] show ?thesis
      by (simp add: add_annotation_def Let_def)
  next
    case (GetAnnotations t b c v)
    with Cons.IH [of s] show ?thesis by simp
  qed
qed

lemma foldl_serve_counter:
  "annotation_id_counter (foldl serve s reqs) =
     annotation_id_counter s + int (length (filter is_add reqs))"
proof (induction reqs arbitrary: s)
  case Nil
  show ?case by simp
next
  case (Cons r reqs)
  show ?case
  proof (cases r)
    case (AddAnnotation t b c v n)
    with Cons.IH [of "snd (add_annotation s t b c v n)"] show ?thesis
      by (simp add: add_annotation_def Let_def)
  next
    case (GetAnnotations t b c v)
    with Cons.IH [of s] show ?thesis by simp
  qed
qed

lemma responses_ids:
  "map a_id (responses s reqs) =
     [annotation_id_counter s .. annotation_id_counter s + int (length (filter is_add reqs)) - 1]"
proof (induction reqs arbitrary: s)
  case Nil
  show ?case by simp
next
  case (Cons r reqs)
  show ?case
  proof (cases r)
    case (AddAnnotation t b c v n)
    let ?k = "annotation_id_counter s"
    let ?m = "int (length (filter is_add reqs))"
    have "[?k .. ?k + (1 + ?m) - 1] = ?k # [?k + 1 .. ?k + (1 + ?m) - 1]"
      by (rule upto_rec1) simp
    moreover have "map a_id (responses (snd (add_annotation s t b c v n)) reqs) =
                   [?k + 1 .. ?k + 1 + ?m - 1]"
      using Cons.IH [of "snd (add_annotation s t b c v n)"]
      by (simp add: add_annotation_def Let_def)
    ultimately show ?thesis
      using AddAnnotation by (simp add: add_annotation_def Let_def add.assoc)
  next
    case (GetAnnotations t b c v)
    with Cons.IH [of s] show ?thesis by simp
  qed
qed

lemma run_annotations: "ANNOTATIONS (run reqs) = responses initial_store reqs"
  by (simp add: run_def foldl_serve_annotations initial_store_def)

lemma run_counter: "annotation_id_counter (run reqs) = 1 + int (length (filter is_add reqs))"
  by (simp add: run_def foldl_serve_counter initial_store_def)

lemma run_ids: "map a_id (ANNOTATIONS (run reqs)) = [1 .. int (length (filter is_add reqs))]"
  by (simp add: run_annotations responses_ids initial_store_def)

lemma run_snoc: "run (reqs @ [r]) = serve (run reqs) r"
  by (simp add: run_def)

lemma uninterrupted_handler:
  "schedule (s, [Received t b c v n]) [0, 0, 0, 0] =
     (snd (add_annotation s t b c v n), [Returned (fst (add_annotation s t b c v n))])"
  by (simp add: schedule_def add_annotation_def Let_def)

text \<open>
  Claim C9 says that every \<^verbatim>\<open>addAnnotation\<close> assigns an id strictly greater than all ids
  assigned before. The counter is read when the dict is built and written back only
  after the append, with no lock in between. When a second handler runs while the first
  is suspended before its append, both read the counter at 1: two annotations are stored
  and returned with id 1.
\<close>

theorem C9_duplicate_id_counterexample:
  "schedule (initial_store, [Received ''kjv'' 1 1 1 ''a'', Received ''kjv'' 1 1 2 ''b''])
     [0, 1, 1, 1, 1, 0, 0, 0] =
     (\<lparr>ANNOTATIONS =
          [\<lparr>a_id = 1, a_translation = ''KJV'', a_book = ''1'', a_chapter = 1, a_verse = 2,
            a_note = ''b''\<rparr>,
           \<lparr>a_id = 1, a_translation = ''KJV'', a_book = ''1'', a_chapter = 1, a_verse = 1,
            a_note = ''a''\<rparr>],
        annotation_id_counter = 3\<rparr>,
      [Returned \<lparr>a_id = 1, a_translation = ''KJV'', a_book = ''1'', a_chapter = 1,
                 a_verse = 1, a_note = ''a''\<rparr>,
       Returned \<lparr>a_id = 1, a_translation = ''KJV'', a_book = ''1'', a_chapter = 1,
                 a_verse = 2, a_note = ''b''\<rparr>])"
  by (simp add: schedule_def initial_store_def upper_kjv str_int_def str_nat.simps char_of_def bit_0)

text \<open>
  Claim C9, for requests served one at a time. A handler that is not interrupted has
  the effect of \<^verbatim>\<open>add_annotation\<close> run as a whole. In every run of the process from
  its initial values in which each request ends before the next one starts: the stored
  list is the list of the annotations returned so far, in the order of the requests;
  their ids are \<open>1, 2, \<dots>\<close> up to the number of \<^verbatim>\<open>POST\<close> requests, and the counter is
  one above that number; the next \<^verbatim>\<open>POST\<close> stores, after the list as it is, exactly
  the annotation it returns, built from its arguments with the next id, which is greater
  than every id stored before; a \<^verbatim>\<open>GET\<close> leaves the store as it is; and any further
  requests keep the list as a prefix.
\<close>

theorem C9_sequential_ids:
  "schedule (s, [Received t b c v n]) [0, 0, 0, 0] =
     (snd (add_annotation s t b c v n), [Returned (fst (add_annotation s t b c v n))]) \<and>
   ANNOTATIONS (run reqs) = responses initial_store reqs \<and>
   length (ANNOTATIONS (run reqs)) = length (filter is_add reqs) \<and>
   map a_id (ANNOTATIONS (run reqs)) = [1 .. int (length (filter is_add reqs))] \<and>
   annotation_id_counter (run reqs) = 1 + int (length (filter is_add reqs)) \<and>
   fst (add_annotation (run reqs) t b c v n) =
     \<lparr>a_id = 1 + int (length (filter is_add reqs)), a_translation = upper t,
      a_book = str_int b, a_chapter = c, a_verse = v, a_note = n\<rparr> \<and>
   run (reqs @ [AddAnnotation t b c v n]) =
     \<lparr>ANNOTATIONS = ANNOTATIONS (run reqs) @ [fst (add_annotation (run reqs) t b c v n)],
      annotation_id_counter = 2 + int (length (filter is_add reqs))\<rparr> \<and>
   (\<forall>a \<in> set (ANNOTATIONS (run reqs)).
      a_id a < a_id (fst (add_annotation (run reqs) t b c v n))) \<and>
   run (reqs @ [GetAnnotations ft fb fc fv]) = run reqs \<and>
   prefix (ANNOTATIONS (run reqs)) (ANNOTATIONS (run (reqs @ later_reqs)))"
proof -
  let ?n = "int (length (filter is_add reqs))"
  have len: "length (ANNOTATIONS (run reqs)) = length (filter is_add reqs)"
  proof -
    have "length (map a_id (ANNOTATIONS (run reqs))) = length [1 .. ?n]"
      by (simp only: run_ids)
    then show ?thesis by simp
  qed
  have new: "fst (add_annotation (run reqs) t b c v n) =
     \<lparr>a_id = 1 + ?n, a_translation = upper t, a_book = str_int b, a_chapter = c,
      a_verse = v, a_note = n\<rparr>"
    by (simp add: add_annotation_def Let_def run_counter)
  have post: "run (reqs @ [AddAnnotation t b c v n]) =
     \<lparr>ANNOTATIONS = ANNOTATIONS (run reqs) @ [fst (add_annotation (run reqs) t b c v n)],
      annotation_id_counter = 2 + ?n\<rparr>"
    by (simp add: run_snoc add_annotation_def Let_def run_counter)
  have older: "\<forall>a \<in> set (ANNOTATIONS (run reqs)).
                 a_id a < a_id (fst (add_annotation (run reqs) t b c v n))"
  proof
    fix a
    assume "a \<in> set (ANNOTATIONS (run reqs))"
    then have "a_id a \<in> set (map a_id (ANNOTATIONS (run reqs)))"
      by simp
    then have "a_id a \<in> set [1 .. ?n]"
      by (simp only: run_ids)
    then show "a_id a < a_id (fst (add_annotation (run reqs) t b c v n))"
      by (simp add: new)
  qed
  have get: "run (reqs @ [GetAnnotations ft fb fc fv]) = run reqs"
    by (simp add: run_snoc)
  have later: "prefix (ANNOTATIONS (run reqs)) (ANNOTATIONS (run (reqs @ later_reqs)))"
    by (simp add: run_def foldl_serve_annotations)
  from uninterrupted_handler run_annotations len run_ids run_counter new post older get later
  show ?thesis
    by blast
qed

theorem C9_sequential_ids_witness:
  "ANNOTATIONS (run [AddAnnotation ''kjv'' 1 1 1 ''a'', GetAnnotations None None None None,
                     AddAnnotation ''asv'' 2 3 4 ''b'']) =
     [\<lparr>a_id = 1, a_translation = ''KJV'', a_book = ''1'', a_chapter = 1, a_verse = 1,
       a_note = ''a''\<rparr>,
      \<lparr>a_id = 2, a_translation = ''ASV'', a_book = ''2'', a_chapter = 3, a_verse = 4,
       a_note = ''b''\<rparr>] \<and>
   list_all
     (\<lambda>a. a_id a <
           a_id (fst (add_annotation
                        (run [AddAnnotation ''kjv'' 1 1 1 ''a'',
                              GetAnnotations None None None None,
                              AddAnnotation ''asv'' 2 3 4 ''b''])
                        ''web'' 1 1 2 ''c'')))
     (ANNOTATIONS (run [AddAnnotation ''kjv'' 1 1 1 ''a'', GetAnnotations None None None None,
                        AddAnnotation ''asv'' 2 3 4 ''b''])) \<and>
   fst (add_annotation
          (run [AddAnnotation ''kjv'' 1 1 1 ''a'', GetAnnotations None None None None,
                AddAnnotation ''asv'' 2 3 4 ''b''])
          ''web'' 1 1 2 ''c'') =
     \<lparr>a_id = 3, a_translation = ''WEB'', a_book = ''1'', a_chapter = 1, a_verse = 2,
      a_note = ''c''\<rparr> \<and>
   ANNOTATIONS (run [AddAnnotation ''kjv'' 1 1 1 ''a'', GetAnnotations None None None None,
                     AddAnnotation ''asv'' 2 3 4 ''b'', AddAnnotation ''web'' 1 1 2 ''c'']) =
     [\<lparr>a_id = 1, a_translation = ''KJV'', a_book = ''1'', a_chapter = 1, a_verse = 1,
       a_note = ''a''\<rparr>,
      \<lparr>a_id = 2, a_translation = ''ASV'', a_book = ''2'', a_chapter = 3, a_verse = 4,
       a_note = ''b''\<rparr>,
      \<lparr>a_id = 3, a_translation = ''WEB'', a_book = ''1'', a_chapter = 1, a_verse = 2,
       a_note = ''c''\<rparr>]"
proof -
  let ?reqs = "[AddAnnotation ''kjv'' 1 1 1 ''a'', GetAnnotations None None None None,
                AddAnnotation ''asv'' 2 3 4 ''b'']"
  note facts = C9_sequential_ids [of initial_store "''web''" 1 1 2 "''c''" ?reqs]
  have stored: "responses initial_store ?reqs =
     [\<lparr>a_id = 1, a_translation = ''KJV'', a_book = ''1'', a_chapter = 1, a_verse = 1,
       a_note = ''a''\<rparr>,
      \<lparr>a_id = 2, a_translation = ''ASV'', a_book = ''2'', a_chapter = 3, a_verse = 4,
       a_note = ''b''\<rparr>]"
    by (simp add: add_annotation_def initial_store_def Let_def upper_kjv upper_asv
        str_int_def str_nat.simps char_of_def bit_0)
  from facts have a: "ANNOTATIONS (run ?reqs) = responses initial_store ?reqs"
    by blast
  from facts have "\<forall>a \<in> set (ANNOTATIONS (run ?reqs)).
      a_id a < a_id (fst (add_annotation (run ?reqs) ''web'' 1 1 2 ''c''))"
    by blast
  then have b: "list_all (\<lambda>a. a_id a < a_id (fst (add_annotation (run ?reqs) ''web'' 1 1 2 ''c'')))
      (ANNOTATIONS (run ?reqs))"
    by (simp only: list_all_iff)
  from facts have "fst (add_annotation (run ?reqs) ''web'' 1 1 2 ''c'') =
     \<lparr>a_id = 1 + int (length (filter is_add ?reqs)), a_translation = upper ''web'',
      a_book = str_int 1, a_chapter = 1, a_verse = 2, a_note = ''c''\<rparr>"
    by blast
  then have c: "fst (add_annotation (run ?reqs) ''web'' 1 1 2 ''c'') =
     \<lparr>a_id = 3, a_translation = ''WEB'', a_book = ''1'', a_chapter = 1, a_verse = 2,
      a_note = ''c''\<rparr>"
    by (simp add: upper_web str_int_def str_nat.simps char_of_def bit_0)
  from facts have "run (?reqs @ [AddAnnotation ''web'' 1 1 2 ''c'']) =
     \<lparr>ANNOTATIONS = ANNOTATIONS (run ?reqs) @ [fst (add_annotation (run ?reqs) ''web'' 1 1 2 ''c'')],
      annotation_id_counter = 2 + int (length (filter is_add ?reqs))\<rparr>"
    by blast
  then have d: "ANNOTATIONS (run (?reqs @ [AddAnnotation ''web'' 1 1 2 ''c''])) =
     responses initial_store ?reqs @
       [\<lparr>a_id = 3, a_translation = ''WEB'', a_book = ''1'', a_chapter = 1, a_verse = 2,
         a_note = ''c''\<rparr>]"
    by (simp only: a c store.simps)
  from a b c d show ?thesis
    by (simp only: stored append.simps)
qed

end
